theory Spec2Isabelle
  imports Main "HOL-Library.Word" "HOL-Library.Sublist"
begin

section \<open>The platform: paths, the disk, JavaScript errors\<close>

text \<open>
  \<^verbatim>\<open>scripts/validate-build.ts\<close> is a linear script over Node's \<^verbatim>\<open>path\<close>, \<^verbatim>\<open>fs\<close>,
  module loader and the TypeScript compiler. The script is embedded function by function
  (\<open>validateBuild\<close>, \<open>validateTypeScriptFile\<close>, \<open>validatePackageJson\<close>, \<open>validatePath\<close>,
  \<open>getFiles\<close>); what it calls is the platform, modelled in this section:
  \<^item> \<^verbatim>\<open>path.join\<close> and \<^verbatim>\<open>path.extname\<close> (POSIX) as executable string functions;
  \<^item> the disk as a tree of directories and files, read by path;
  \<^item> the module loader, the type checker, \<^verbatim>\<open>JSON.parse\<close> and the order in which
    concurrent file-system requests complete as fields of a record \<open>platform\<close>, about
    which nothing is assumed.
\<close>

subsection \<open>Strings\<close>

text \<open>
  Paths and messages are \<open>string\<close>s. The text of a file is a JavaScript string, a
  sequence of UTF-16 code units, because \<^verbatim>\<open>String.prototype.trim\<close> is defined on them.
\<close>

type_synonym jsstring = "16 word list"

definition text_of :: "string \<Rightarrow> jsstring" where
  "text_of s = map (\<lambda>c. of_nat (of_char c)) s"

fun splitSlash :: "string \<Rightarrow> string list" where
  "splitSlash [] = [[]]"
| "splitSlash (c # cs) =
     (if c = CHR ''/'' then [] # splitSlash cs
      else (case splitSlash cs of [] \<Rightarrow> [[c]] | s # ss \<Rightarrow> (c # s) # ss))"

fun joinWith :: "string \<Rightarrow> string list \<Rightarrow> string" where
  "joinWith sep [] = []"
| "joinWith sep [s] = s"
| "joinWith sep (s # t # ss) = s @ sep @ joinWith sep (t # ss)"

subsection \<open>\<^verbatim>\<open>path.join\<close> and \<^verbatim>\<open>path.extname\<close>\<close>

text \<open>
  \<^verbatim>\<open>normalizeString\<close> of Node's \<^verbatim>\<open>lib/path.js\<close>: the segments between slashes are
  pushed on a stack; an empty segment and \<^verbatim>\<open>.\<close> are dropped; \<^verbatim>\<open>..\<close> pops the last
  segment unless the stack is empty or ends in \<^verbatim>\<open>..\<close>, where it is pushed if the path
  is relative and dropped otherwise.
\<close>

definition normalizeStep :: "bool \<Rightarrow> string \<Rightarrow> string list \<Rightarrow> string list" where
  "normalizeStep allowAboveRoot seg res =
     (if seg = [] \<or> seg = ''.'' then res
      else if seg = ''..'' then
        (if res \<noteq> [] \<and> last res \<noteq> ''..'' then butlast res
         else if allowAboveRoot then res @ [''..''] else res)
      else res @ [seg])"

definition normalizeString :: "string \<Rightarrow> bool \<Rightarrow> string" where
  "normalizeString path allowAboveRoot =
     joinWith ''/'' (fold (normalizeStep allowAboveRoot) (splitSlash path) [])"

definition normalize :: "string \<Rightarrow> string" where
  "normalize path =
     (if path = [] then ''.''
      else
        let isAbsolute = (hd path = CHR ''/'');
            trailingSeparator = (last path = CHR ''/'');
            p = normalizeString path (\<not> isAbsolute)
        in if p = [] then (if isAbsolute then ''/'' else if trailingSeparator then ''./'' else ''.'')
           else (if isAbsolute then ''/'' else []) @ p @ (if trailingSeparator then ''/'' else []))"

text \<open>\<^verbatim>\<open>path.join(a, b)\<close> for two strings: the non-empty ones, joined by a slash, normalised.\<close>

definition join :: "string \<Rightarrow> string \<Rightarrow> string" where
  "join a b =
     (if a = [] \<and> b = [] then ''.''
      else if a = [] then normalize b
      else if b = [] then normalize a
      else normalize (a @ ''/'' @ b))"

text \<open>
  \<^verbatim>\<open>path.extname\<close>: in the last segment of the path (trailing slashes ignored), the text
  from the last dot on; empty when there is no dot, when the only dot is the first
  character, and for the segment \<^verbatim>\<open>..\<close>.
\<close>

definition lastSegment :: "string \<Rightarrow> string" where
  "lastSegment path =
     rev (takeWhile (\<lambda>c. c \<noteq> CHR ''/'') (dropWhile (\<lambda>c. c = CHR ''/'') (rev path)))"

definition extname :: "string \<Rightarrow> string" where
  "extname path =
     (let base = lastSegment path;
          afterDot = rev (takeWhile (\<lambda>c. c \<noteq> CHR ''.'') (rev base))
      in if CHR ''.'' \<notin> set base then []
         else if Suc (length afterDot) = length base then []
         else if base = ''..'' then []
         else CHR ''.'' # afterDot)"

subsection \<open>JavaScript errors and the disk\<close>

text \<open>
  What a \<^verbatim>\<open>throw\<close> carries: the file-system errors by their code, \<^verbatim>\<open>TypeError\<close>,
  \<^verbatim>\<open>SyntaxError\<close> (of \<^verbatim>\<open>JSON.parse\<close>), and \<^verbatim>\<open>new Error(message)\<close>.
\<close>

datatype js_error = ENOENT | ENOTDIR | EISDIR | TypeError | SyntaxError | Error string

text \<open>
  The disk is a tree. A regular file holds its text as \<^verbatim>\<open>readFileSync(path, 'utf-8')\<close>
  returns it; a directory lists its entries by name, in the order \<^verbatim>\<open>readdirSync\<close> returns
  them; anything else (a socket, a FIFO, a device) holds what reading it gives.
\<close>

datatype node =
    File jsstring
  | Dir "(string \<times> node) list"
  | Special "js_error + jsstring"

fun isDirectory :: "node \<Rightarrow> bool" where
  "isDirectory (Dir es) = True"
| "isDirectory n = False"

fun isFile :: "node \<Rightarrow> bool" where
  "isFile (File c) = True"
| "isFile n = False"

text \<open>
  Path resolution, segment by segment from the root (a relative path is resolved from the
  root as well: the working directory is the root of the tree). An empty segment and
  \<^verbatim>\<open>.\<close> stay where they are, \<^verbatim>\<open>..\<close> goes to the parent, and each needs a directory
  to stand in, so a trailing slash after a file is \<^verbatim>\<open>ENOTDIR\<close>.
\<close>

fun walk :: "node \<Rightarrow> node list \<Rightarrow> string list \<Rightarrow> js_error + node" where
  "walk cur anc [] = Inr cur"
| "walk cur anc (s # ss) =
     (case cur of
        Dir es \<Rightarrow>
          (if s = [] \<or> s = ''.'' then walk cur anc ss
           else if s = ''..'' then
             (case anc of [] \<Rightarrow> walk cur [] ss | a # as \<Rightarrow> walk a as ss)
           else
             (case map_of es s of
                None \<Rightarrow> Inl ENOENT
              | Some n \<Rightarrow> walk n (cur # anc) ss))
      | _ \<Rightarrow> Inl ENOTDIR)"

definition resolve :: "node \<Rightarrow> string \<Rightarrow> js_error + node" where
  "resolve root path =
     (if path = [] then Inl ENOENT else walk root [] (splitSlash path))"

definition readAt :: "node \<Rightarrow> string \<Rightarrow> js_error + jsstring" where
  "readAt root path =
     (case resolve root path of
        Inl e \<Rightarrow> Inl e
      | Inr (File c) \<Rightarrow> Inr c
      | Inr (Dir es) \<Rightarrow> Inl EISDIR
      | Inr (Special r) \<Rightarrow> r)"

definition existsAt :: "node \<Rightarrow> string \<Rightarrow> bool" where
  "existsAt root path = (case resolve root path of Inl e \<Rightarrow> False | Inr n \<Rightarrow> True)"

subsection \<open>The state of a run: the disk and the calls made so far\<close>

text \<open>
  Every call of the script into the platform is recorded, in the order the calls are
  made: \<open>ReadFile\<close> is \<^verbatim>\<open>readFile\<close> of \<^verbatim>\<open>./util\<close>, the others are named after the
  function called.
\<close>

datatype event =
    ReadFile string
  | Require string
  | Import string
  | TypeCheck string
  | ReadFileSync string
  | Access string
  | ReaddirSync string
  | StatSync string

record state =
  disk :: node
  trace :: "event list"

definition log :: "event \<Rightarrow> state \<Rightarrow> state" where
  "log e st = st\<lparr>trace := trace st @ [e]\<rparr>"

section \<open>The data of the script\<close>

text \<open>\<^verbatim>\<open>BuildConfig\<close>, with the three fields the script reads.\<close>

record BuildConfig =
  pkgDir :: string
  rootDir :: string
  esmNode :: bool

text \<open>
  Modelled from the spec: the interface \<^verbatim>\<open>PackageJSON\<close> is declared in \<^verbatim>\<open>./util\<close>, which
  is not among the sources. The spec gives \<^verbatim>\<open>files: string[]\<close>, optional \<^verbatim>\<open>main\<close>,
  \<^verbatim>\<open>module\<close>, \<^verbatim>\<open>types\<close> of type \<^verbatim>\<open>string\<close>, and optional \<^verbatim>\<open>exports\<close>, a mapping from
  export key to a path or to a record with \<^verbatim>\<open>import\<close> and \<^verbatim>\<open>require\<close>. An absent
  field is \<open>None\<close> (JavaScript's \<^verbatim>\<open>undefined\<close>); \<^verbatim>\<open>exports\<close> keeps the order of its keys,
  as \<^verbatim>\<open>Object.keys\<close> does.
\<close>

datatype export_target =
    Path string
  | Conditional string string

record PackageJSON =
  files :: "string list"
  main :: "string option"
  module :: "string option"
  types :: "string option"
  exports :: "(string \<times> export_target) list option"

type_synonym diagnostic = string

text \<open>
  What the script calls and this theory leaves open. \<open>JSON_parse\<close> gives the parsed
  value as the script reads it, or the \<^verbatim>\<open>SyntaxError\<close>. \<open>requireModule\<close> and
  \<open>importModule\<close> run a module's top-level code on a disk: they give what it throws, if
  anything, and the disk it leaves. The diagnostics are those of the program
  \<^verbatim>\<open>ts.createProgram([tsFilePath], options)\<close>, with the options of the configuration at
  \<open>tsconfigPath\<close> parsed relative to \<open>rootDir\<close>. \<open>completionOrder pf batch n\<close> says which
  of the requests in flight completes at step \<open>n\<close> of the \<open>batch\<close>-th \<^verbatim>\<open>Promise.all\<close>
  (taken modulo their number). \<open>dirname\<close> is \<^verbatim>\<open>__dirname\<close>.
\<close>

record platform =
  JSON_parse :: "jsstring \<Rightarrow> js_error + PackageJSON"
  requireModule :: "string \<Rightarrow> node \<Rightarrow> js_error option \<times> node"
  importModule :: "string \<Rightarrow> node \<Rightarrow> js_error option \<times> node"
  pathToFileURL_href :: "string \<Rightarrow> string"
  getSemanticDiagnostics :: "string \<Rightarrow> string \<Rightarrow> string \<Rightarrow> node \<Rightarrow> diagnostic list"
  getSyntacticDiagnostics :: "string \<Rightarrow> string \<Rightarrow> string \<Rightarrow> node \<Rightarrow> diagnostic list"
  formatDiagnostics :: "diagnostic list \<Rightarrow> string"
  completionOrder :: "nat \<Rightarrow> nat \<Rightarrow> nat"
  dirname :: string

text \<open>
  What a run prints on the error stream, and how it ends: \<open>Validated\<close> is the normal
  return (after \<^verbatim>\<open>console.log\<close> of the success line; the process exits with code 0),
  \<open>Exit1\<close> is \<^verbatim>\<open>process.exit(1)\<close> after the \<^verbatim>\<open>console.error\<close> calls listed, \<open>Uncaught\<close>
  is an error that leaves \<open>validateBuild\<close> (its promise is rejected).
\<close>

datatype printed = Str string | Err js_error

datatype outcome = Validated | Exit1 "printed list" | Uncaught js_error

subsection \<open>The platform calls, with their record in the trace\<close>

text \<open>
  Modelled from the spec: \<^verbatim>\<open>readFile\<close> and \<^verbatim>\<open>access\<close> are imported from \<^verbatim>\<open>./util\<close>, which is
  not among the sources. The spec has the loader read the manifest file as text, and the
  resolver check that a path exists on disk; they are taken to be the promise forms of
  \<^verbatim>\<open>fs.readFile\<close> and \<^verbatim>\<open>fs.access\<close>. \<open>access\<close> gives the error of the request, if any;
  its record in the trace is made where the request is started.
\<close>

definition access :: "node \<Rightarrow> string \<Rightarrow> js_error option" where
  "access root path = (case resolve root path of Inl e \<Rightarrow> Some e | Inr n \<Rightarrow> None)"

definition readFile :: "string \<Rightarrow> state \<Rightarrow> (js_error + jsstring) \<times> state" where
  "readFile path st = (readAt (disk st) path, log (ReadFile path) st)"

definition readFileSync :: "string \<Rightarrow> state \<Rightarrow> (js_error + jsstring) \<times> state" where
  "readFileSync path st = (readAt (disk st) path, log (ReadFileSync path) st)"

definition require :: "platform \<Rightarrow> string \<Rightarrow> state \<Rightarrow> js_error option \<times> state" where
  "require pf path st =
     (case requireModule pf path (disk st) of
        (thrown, d) \<Rightarrow> (thrown, log (Require path) (st\<lparr>disk := d\<rparr>)))"

definition dynamicImport :: "platform \<Rightarrow> string \<Rightarrow> state \<Rightarrow> js_error option \<times> state" where
  "dynamicImport pf href st =
     (case importModule pf href (disk st) of
        (thrown, d) \<Rightarrow> (thrown, log (Import href) (st\<lparr>disk := d\<rparr>)))"

text \<open>
  \<^verbatim>\<open>String.prototype.trim\<close> removes the code units of ECMAScript's WhiteSpace and
  LineTerminator from both ends.
\<close>

definition isWhiteSpace :: "16 word \<Rightarrow> bool" where
  "isWhiteSpace c =
     (c = 0x0009 \<or> c = 0x000A \<or> c = 0x000B \<or> c = 0x000C \<or> c = 0x000D \<or> c = 0x0020
      \<or> c = 0x00A0 \<or> c = 0x1680 \<or> (0x2000 \<le> c \<and> c \<le> 0x200A) \<or> c = 0x2028
      \<or> c = 0x2029 \<or> c = 0x202F \<or> c = 0x205F \<or> c = 0x3000 \<or> c = 0xFEFF)"

definition trim :: "jsstring \<Rightarrow> jsstring" where
  "trim s = rev (dropWhile isWhiteSpace (rev (dropWhile isWhiteSpace s)))"

section \<open>The script\<close>

subsection \<open>\<^verbatim>\<open>validateTypeScriptFile\<close>\<close>

text \<open>
  The semantic and the syntactic diagnostics of the one-file program, concatenated; any
  diagnostic is thrown as an \<^verbatim>\<open>Error\<close> whose message is a firecracker (U+1F9E8, four bytes
  of UTF-8), two spaces and the formatted diagnostics. The function does not touch the
  file system itself.
\<close>

definition firecracker :: string where
  "firecracker = [CHR 0xF0, CHR 0x9F, CHR 0xA7, CHR 0xA8]"

definition validateTypeScriptFile ::
  "platform \<Rightarrow> BuildConfig \<Rightarrow> string \<Rightarrow> state \<Rightarrow> js_error option \<times> state" where
  "validateTypeScriptFile pf cfg tsFilePath st =
     (let tsconfigPath = join (rootDir cfg) ''tsconfig.json'';
          tsDiagnostics =
            getSemanticDiagnostics pf tsconfigPath (rootDir cfg) tsFilePath (disk st)
            @ getSyntacticDiagnostics pf tsconfigPath (rootDir cfg) tsFilePath (disk st);
          st1 = log (TypeCheck tsFilePath) st
      in if length tsDiagnostics > 0
         then (Some (Error (firecracker @ ''  '' @ formatDiagnostics pf tsDiagnostics)), st1)
         else (None, st1))"

subsection \<open>The loop over the declared files\<close>

text \<open>\<^verbatim>\<open>JSON.parse(readFileSync(filePath, 'utf-8'))\<close>, the value dropped.\<close>

definition parseJsonFile :: "platform \<Rightarrow> string \<Rightarrow> state \<Rightarrow> js_error option \<times> state" where
  "parseJsonFile pf filePath st =
     (case readFileSync filePath st of
        (Inl e, st1) \<Rightarrow> (Some e, st1)
      | (Inr content, st1) \<Rightarrow>
          (case JSON_parse pf content of Inl e \<Rightarrow> (Some e, st1) | Inr v \<Rightarrow> (None, st1)))"

text \<open>
  The body of the \<^verbatim>\<open>try\<close>: the \<^verbatim>\<open>switch\<close> on the extension. The result is what the
  body throws, if anything. The case \<^verbatim>\<open>'.mjs'\<close> breaks only under \<^verbatim>\<open>config.esmNode\<close> and
  falls through to the case \<^verbatim>\<open>'.ts'\<close> otherwise.
\<close>

definition validateFile ::
  "platform \<Rightarrow> BuildConfig \<Rightarrow> string \<Rightarrow> state \<Rightarrow> js_error option \<times> state" where
  "validateFile pf cfg filePath st =
     (let ext = extname filePath in
      if ext = ''.cjs'' then require pf filePath st
      else if ext = ''.mjs'' \<and> esmNode cfg
        then dynamicImport pf (pathToFileURL_href pf filePath) st
      else if ext = ''.mjs'' \<or> ext = ''.ts'' then validateTypeScriptFile pf cfg filePath st
      else if ext = ''.json'' then parseJsonFile pf filePath st
      else if ext = ''.map'' then parseJsonFile pf filePath st
      else
        (case readFileSync filePath st of
           (Inl e, st1) \<Rightarrow> (Some e, st1)
         | (Inr content, st1) \<Rightarrow>
             if trim content = [] then (Some (Error ''empty file''), st1) else (None, st1)))"

text \<open>
  The \<^verbatim>\<open>for\<close> loop with its \<^verbatim>\<open>catch\<close>: the first file whose check throws ends the
  process; \<open>None\<close> is the loop running to its end.
\<close>

definition fileError :: "string \<Rightarrow> js_error \<Rightarrow> printed list" where
  "fileError filePath e = [Str ''Validate Build File Error!'', Str filePath, Err e]"

fun validateFiles ::
  "platform \<Rightarrow> BuildConfig \<Rightarrow> string list \<Rightarrow> state \<Rightarrow> outcome option \<times> state" where
  "validateFiles pf cfg [] st = (None, st)"
| "validateFiles pf cfg (filePath # rest) st =
     (case validateFile pf cfg filePath st of
        (Some e, st1) \<Rightarrow> (Some (Exit1 (fileError filePath e)), st1)
      | (None, st1) \<Rightarrow> validateFiles pf cfg rest st1)"

text \<open>The platform call that the check of a declared file makes.\<close>

definition fileCall :: "platform \<Rightarrow> BuildConfig \<Rightarrow> string \<Rightarrow> event" where
  "fileCall pf cfg filePath =
     (let ext = extname filePath in
      if ext = ''.cjs'' then Require filePath
      else if ext = ''.mjs'' \<and> esmNode cfg then Import (pathToFileURL_href pf filePath)
      else if ext = ''.mjs'' \<or> ext = ''.ts'' then TypeCheck filePath
      else ReadFileSync filePath)"

text \<open>
  The four stages of the spec, by the calls they make: the manifest loader (0), the file
  validator (1), the entry-point resolver (2), the tree scanner (3).
\<close>

fun phase :: "event \<Rightarrow> nat" where
  "phase (ReadFile p) = 0"
| "phase (Require p) = 1"
| "phase (Import p) = 1"
| "phase (TypeCheck p) = 1"
| "phase (ReadFileSync p) = 1"
| "phase (Access p) = 2"
| "phase (ReaddirSync p) = 3"
| "phase (StatSync p) = 3"

subsection \<open>\<^verbatim>\<open>validatePath\<close> and \<^verbatim>\<open>validatePackageJson\<close>\<close>

text \<open>
  \<^verbatim>\<open>validatePath\<close> is an \<^verbatim>\<open>async\<close> function: a call runs it up to its \<^verbatim>\<open>await\<close>, that is,
  it evaluates \<^verbatim>\<open>join(config.pkgDir, path)\<close> and starts \<^verbatim>\<open>access\<close>; the rest runs when the
  request completes. \<^verbatim>\<open>path.join\<close> throws a \<^verbatim>\<open>TypeError\<close> for an argument that is not a
  string, inside the \<^verbatim>\<open>try\<close>, so an absent path ends the process at the call. The
  template literal prints an absent path as \<^verbatim>\<open>undefined\<close>.
\<close>

definition quote :: string where
  "quote = [CHR 0x22]"

definition newline :: string where
  "newline = [CHR 0x0A]"

definition pathError :: "BuildConfig \<Rightarrow> string option \<Rightarrow> js_error \<Rightarrow> printed list" where
  "pathError cfg path e =
     [Str (''Error validating path '' @ quote
           @ (case path of None \<Rightarrow> ''undefined'' | Some p \<Rightarrow> p) @ quote
           @ '' inside of '' @ quote @ join (pkgDir cfg) ''package.json'' @ quote),
      Err e]"

definition validatePath_call ::
  "BuildConfig \<Rightarrow> string option \<Rightarrow> state \<Rightarrow> outcome option \<times> state" where
  "validatePath_call cfg path st =
     (case path of
        None \<Rightarrow> (Some (Exit1 (pathError cfg None TypeError)), st)
      | Some p \<Rightarrow> (None, log (Access (join (pkgDir cfg) p)) st))"

definition validatePath_completed :: "BuildConfig \<Rightarrow> string \<Rightarrow> state \<Rightarrow> outcome option" where
  "validatePath_completed cfg p st =
     (case access (disk st) (join (pkgDir cfg) p) of
        Some e \<Rightarrow> Some (Exit1 (pathError cfg (Some p) e))
      | None \<Rightarrow> None)"

text \<open>
  The calls an array literal or \<^verbatim>\<open>map\<close> makes, in order, before \<^verbatim>\<open>Promise.all\<close> gets
  the promises: each starts its first check.
\<close>

fun callAll ::
  "BuildConfig \<Rightarrow> string option list \<Rightarrow> state \<Rightarrow> outcome option \<times> state" where
  "callAll cfg [] st = (None, st)"
| "callAll cfg (path # paths) st =
     (case validatePath_call cfg path st of
        (Some out, st1) \<Rightarrow> (Some out, st1)
      | (None, st1) \<Rightarrow> callAll cfg paths st1)"

text \<open>
  \<^verbatim>\<open>await Promise.all(...)\<close>. A task is the list of paths one promise still has to check,
  the first of them in flight. The request that completes next is the platform's choice.
  If it failed, the process ends there; otherwise its task starts the next check, if it
  has one. \<open>None\<close> is every promise fulfilled.
\<close>

definition pending :: "string list list \<Rightarrow> string list list" where
  "pending tasks = filter (\<lambda>t. t \<noteq> []) tasks"

function promiseAll ::
  "platform \<Rightarrow> BuildConfig \<Rightarrow> nat \<Rightarrow> nat \<Rightarrow> string list list \<Rightarrow> state
   \<Rightarrow> outcome option \<times> state" where
  "promiseAll pf cfg batch n tasks st =
     (if pending tasks = [] then (None, st)
      else
        let i = completionOrder pf batch n mod length (pending tasks);
            t = pending tasks ! i
        in case validatePath_completed cfg (hd t) st of
             Some out \<Rightarrow> (Some out, st)
           | None \<Rightarrow>
               (case callAll cfg (map Some (take 1 (tl t))) st of
                  (Some out, st1) \<Rightarrow> (Some out, st1)
                | (None, st1) \<Rightarrow>
                    promiseAll pf cfg batch (Suc n) ((pending tasks)[i := tl t]) st1))"
  by pat_completeness auto


lemma sum_length_pending: "sum_list (map length (pending tasks)) = sum_list (map length tasks)"
  by (induction tasks) (auto simp: pending_def)

lemma pending_nonempty: "t \<in> set (pending tasks) \<Longrightarrow> t \<noteq> []"
  by (simp add: pending_def)

lemma sum_length_tl:
  "i < length xs \<Longrightarrow> xs ! i \<noteq> [] \<Longrightarrow>
   sum_list (map length (xs[i := tl (xs ! i)])) < sum_list (map length xs)"
proof (induction xs arbitrary: i)
  case Nil
  then show ?case by simp
next
  case (Cons x xs)
  show ?case
  proof (cases i)
    case 0
    with Cons.prems show ?thesis by (cases x) auto
  next
    case (Suc j)
    with Cons.prems Cons.IH [of j] show ?thesis by simp
  qed
qed

termination promiseAll
proof (relation "measure (\<lambda>(pf, cfg, batch, n, tasks, st). sum_list (map length tasks))", goal_cases)
  case 1
  show ?case by simp
next
  case (2 pf cfg batch n tasks st i t st1 out)
  have ne: "pending tasks \<noteq> []" using 2 by simp
  then have i: "i < length (pending tasks)" using 2 by simp
  then have "pending tasks ! i \<in> set (pending tasks)" by simp
  then have "pending tasks ! i \<noteq> []" by (rule pending_nonempty)
  with i have "sum_list (map length ((pending tasks)[i := tl (pending tasks ! i)]))
      < sum_list (map length (pending tasks))" by (rule sum_length_tl)
  then show ?case using 2 by (simp add: sum_length_pending)
qed

declare promiseAll.simps [simp del]

text \<open>
  \<^verbatim>\<open>validatePackageJson\<close>: the three calls of the array literal and their
  \<^verbatim>\<open>Promise.all\<close> (batch 0; where it is reached the three paths are present, an absent
  one having ended the process at its call); then \<^verbatim>\<open>Object.keys(pkg.exports)\<close>, which
  throws a \<^verbatim>\<open>TypeError\<close> for \<^verbatim>\<open>undefined\<close>, outside any \<^verbatim>\<open>try\<close>; then one promise for
  each key (batch 1), which checks the path of a string, and \<^verbatim>\<open>import\<close> and after it
  \<^verbatim>\<open>require\<close> of a record.
\<close>

fun exportTask :: "string \<times> export_target \<Rightarrow> string list" where
  "exportTask (exportKey, Path val) = [val]"
| "exportTask (exportKey, Conditional imp req) = [imp, req]"

definition validatePackageJson ::
  "platform \<Rightarrow> BuildConfig \<Rightarrow> PackageJSON \<Rightarrow> state \<Rightarrow> outcome option \<times> state" where
  "validatePackageJson pf cfg pkg st =
     (case callAll cfg [main pkg, module pkg, types pkg] st of
        (Some out, st1) \<Rightarrow> (Some out, st1)
      | (None, st1) \<Rightarrow>
          (case promiseAll pf cfg 0 0
                  (map (\<lambda>p. [p]) (List.map_filter id [main pkg, module pkg, types pkg])) st1 of
             (Some out, st2) \<Rightarrow> (Some out, st2)
           | (None, st2) \<Rightarrow>
               (case exports pkg of
                  None \<Rightarrow> (Some (Uncaught TypeError), st2)
                | Some exps \<Rightarrow>
                    (case callAll cfg (map (\<lambda>e. Some (hd (exportTask e))) exps) st2 of
                       (Some out, st3) \<Rightarrow> (Some out, st3)
                     | (None, st3) \<Rightarrow> promiseAll pf cfg 1 0 (map exportTask exps) st3))))"

subsection \<open>\<^verbatim>\<open>getFiles\<close>\<close>

text \<open>
  \<open>getFiles dir n\<close> is \<^verbatim>\<open>getFiles(dir)\<close> where \<open>n\<close> is what the disk has at \<open>dir\<close>;
  \<open>forEachPath\<close> is the \<^verbatim>\<open>forEach\<close> over the joined entries. \<^verbatim>\<open>statSync\<close> of an entry
  gives the entry's node. The array \<^verbatim>\<open>allFiles\<close> of the enclosing function is passed
  along. \<^verbatim>\<open>readdirSync\<close> of what is not a directory throws \<^verbatim>\<open>ENOTDIR\<close>.
\<close>

function getFiles ::
    "string \<Rightarrow> node \<Rightarrow> string list \<Rightarrow> state \<Rightarrow> (js_error + string list) \<times> state"
  and forEachPath ::
    "string \<Rightarrow> (string \<times> node) list \<Rightarrow> string list \<Rightarrow> state
     \<Rightarrow> (js_error + string list) \<times> state"
where
  "getFiles dir (Dir es) allFiles st = forEachPath dir es allFiles (log (ReaddirSync dir) st)"
| "getFiles dir (File c) allFiles st = (Inl ENOTDIR, log (ReaddirSync dir) st)"
| "getFiles dir (Special r) allFiles st = (Inl ENOTDIR, log (ReaddirSync dir) st)"
| "forEachPath dir [] allFiles st = (Inr allFiles, st)"
| "forEachPath dir (entry # es) allFiles st =
     (let filePath = join dir (fst entry);
          st1 = log (StatSync filePath) st
      in if isDirectory (snd entry) then
           (case getFiles filePath (snd entry) allFiles st1 of
              (Inl e, st2) \<Rightarrow> (Inl e, st2)
            | (Inr allFiles2, st2) \<Rightarrow> forEachPath dir es allFiles2 st2)
         else if isFile (snd entry) then forEachPath dir es (allFiles @ [filePath]) st1
         else (Inl (Error (''unexpected '' @ filePath)), st1))"
  by pat_completeness auto
termination
  by (relation "measure (\<lambda>x. case x of
          Inl (dir, n, allFiles, st) \<Rightarrow> 2 * size n
        | Inr (dir, es, allFiles, st) \<Rightarrow> 2 * size_list (size_prod (\<lambda>x. 0) size) es + 1)")
     auto

subsection \<open>\<^verbatim>\<open>validateBuild\<close>\<close>

definition unexpectedMessage :: "platform \<Rightarrow> string list \<Rightarrow> string" where
  "unexpectedMessage pf unexpectedFiles =
     ''Unexpected files found in the package build:'' @ newline
     @ joinWith newline unexpectedFiles @ newline @ newline
     @ ''If this is on purpose, add the file(s) to the '' @ quote @ ''PACKAGE_FILES'' @ quote
     @ '' array in '' @ quote @ join (dirname pf) ''package-json.ts'' @ quote"

text \<open>The part of \<open>validateBuild\<close> after \<^verbatim>\<open>validatePackageJson\<close>: lines 59 to 89.\<close>

definition scanTree ::
  "platform \<Rightarrow> BuildConfig \<Rightarrow> string list \<Rightarrow> state \<Rightarrow> outcome \<times> state" where
  "scanTree pf cfg expectedFiles st =
     (case (case resolve (disk st) (pkgDir cfg) of
              Inl e \<Rightarrow> (Inl e, log (ReaddirSync (pkgDir cfg)) st)
            | Inr n \<Rightarrow> getFiles (pkgDir cfg) n [] st) of
        (Inl e, st1) \<Rightarrow> (Uncaught e, st1)
      | (Inr allFiles, st1) \<Rightarrow>
          (let unexpectedFiles = filter (\<lambda>f. f \<notin> set expectedFiles) allFiles
           in if length unexpectedFiles > 0
              then (Exit1 [Str (unexpectedMessage pf unexpectedFiles)], st1)
              else (Validated, st1)))"

definition validateBuild :: "platform \<Rightarrow> BuildConfig \<Rightarrow> state \<Rightarrow> outcome \<times> state" where
  "validateBuild pf cfg st =
     (let pkgPath = join (pkgDir cfg) ''package.json'' in
      case readFile pkgPath st of
        (Inl e, st1) \<Rightarrow> (Uncaught e, st1)
      | (Inr content, st1) \<Rightarrow>
          (case JSON_parse pf content of
             Inl e \<Rightarrow> (Uncaught e, st1)
           | Inr pkg \<Rightarrow>
               (let expectedFiles = map (\<lambda>f. join (pkgDir cfg) f) (files pkg) in
                case validateFiles pf cfg expectedFiles st1 of
                  (Some out, st2) \<Rightarrow> (out, st2)
                | (None, st2) \<Rightarrow>
                    (case validatePackageJson pf cfg pkg st2 of
                       (Some out, st3) \<Rightarrow> (out, st3)
                     | (None, st3) \<Rightarrow> scanTree pf cfg expectedFiles st3))))"

subsection \<open>ActualFiles\<close>

text \<open>
  ActualFiles in the words of the spec: the recursive listing of every regular file under
  a directory, here under the directory \<open>dir\<close> with the entries \<open>es\<close>. It is compared
  below with what \<open>getFiles\<close> collects.
\<close>

function actualFiles :: "string \<Rightarrow> (string \<times> node) list \<Rightarrow> string list" where
  "actualFiles dir [] = []"
| "actualFiles dir (entry # es) =
     (case snd entry of
        File c \<Rightarrow> [join dir (fst entry)]
      | Dir sub \<Rightarrow> actualFiles (join dir (fst entry)) sub
      | Special r \<Rightarrow> [])
     @ actualFiles dir es"
  by pat_completeness auto
termination
  by (relation "measure (\<lambda>(dir, es). size_list (size_prod (\<lambda>x. 0) size) es)") auto

subsection \<open>A fully valid build\<close>



definition entryPointsExist :: "BuildConfig \<Rightarrow> node \<Rightarrow> PackageJSON \<Rightarrow> bool" where
  "entryPointsExist cfg d pkg =
     (case main pkg of None \<Rightarrow> False | Some m \<Rightarrow>
      (case module pkg of None \<Rightarrow> False | Some mo \<Rightarrow>
       (case types pkg of None \<Rightarrow> False | Some t \<Rightarrow>
        (case exports pkg of None \<Rightarrow> False | Some exps \<Rightarrow>
           list_all (\<lambda>q. existsAt d (join (pkgDir cfg) q))
             ([m, mo, t] @ concat (map exportTask exps))))))"



section \<open>A small build\<close>

text \<open>
  A package of five files for the closed instances below: the manifest, a CommonJS and an
  ES module, a declaration file and a readme. The platform parses the manifest's text to
  the manifest given and no other text. \<^verbatim>\<open>require\<close> loads a path that is a file on disk, or
  a folder with a file \<^verbatim>\<open>index.js\<close>, and the dynamic import loads a file URL whose path is
  a file on disk, both without error or effect (the module texts below do not throw);
  for any other path they throw. The type checker has no diagnostics (the declaration
  texts below are well formed, and a root file that is not on disk has none in the two
  lists). The request started first completes first.
\<close>

definition manifestText :: jsstring where
  "manifestText = text_of ''manifest''"

definition demoManifest :: PackageJSON where
  "demoManifest =
     \<lparr>files = [''package.json'', ''core.cjs'', ''core.mjs'', ''core.d.ts'', ''README.md''],
      main = Some ''./core.cjs'', module = Some ''./core.mjs'', types = Some ''./core.d.ts'',
      exports = Some [(''.'', Conditional ''./core.mjs'' ''./core.cjs''),
                      (''./package.json'', Path ''./package.json'')]\<rparr>"

definition demoRequire :: "string \<Rightarrow> node \<Rightarrow> js_error option \<times> node" where
  "demoRequire path d =
     (case resolve d path of
        Inr (File c) \<Rightarrow> (None, d)
      | Inr (Dir es) \<Rightarrow>
          (case map_of es ''index.js'' of
             Some (File c) \<Rightarrow> (None, d)
           | _ \<Rightarrow> (Some (Error ''Cannot find module''), d))
      | _ \<Rightarrow> (Some (Error ''Cannot find module''), d))"

definition demoImport :: "string \<Rightarrow> node \<Rightarrow> js_error option \<times> node" where
  "demoImport href d =
     (if take 7 href = ''file://'' then
        (case resolve d (drop 7 href) of
           Inr (File c) \<Rightarrow> (None, d)
         | _ \<Rightarrow> (Some (Error ''Cannot find module''), d))
      else (Some (Error ''Cannot find module''), d))"

definition platformWith :: "PackageJSON \<Rightarrow> platform" where
  "platformWith pkg =
     \<lparr>JSON_parse = (\<lambda>s. if s = manifestText then Inr pkg else Inl SyntaxError),
      requireModule = demoRequire,
      importModule = demoImport,
      pathToFileURL_href = (\<lambda>path. ''file://'' @ path),
      getSemanticDiagnostics = (\<lambda>tsconfigPath root file d. []),
      getSyntacticDiagnostics = (\<lambda>tsconfigPath root file d. []),
      formatDiagnostics = concat,
      completionOrder = (\<lambda>batch n. 0),
      dirname = ''/repo/scripts''\<rparr>"

definition demoEntries :: "(string \<times> node) list" where
  "demoEntries =
     [(''package.json'', File manifestText),
      (''core.cjs'', File (text_of ''module.exports = 1;'')),
      (''core.mjs'', File (text_of ''export default 1;'')),
      (''core.d.ts'', File (text_of ''export declare const one: number;'')),
      (''README.md'', File (text_of ''ok''))]"

definition startOn :: "(string \<times> node) list \<Rightarrow> state" where
  "startOn entries = \<lparr>disk = Dir [(''pkg'', Dir entries)], trace = []\<rparr>"

definition demoConfig :: BuildConfig where
  "demoConfig = \<lparr>pkgDir = ''/pkg'', rootDir = ''/repo'', esmNode = True\<rparr>"

text \<open>
  The example of the spec for conditional exports: \<^verbatim>\<open>exports\<close> maps \<^verbatim>\<open>./sub\<close> to
  \<^verbatim>\<open>./sub.mjs\<close> and \<^verbatim>\<open>./sub.cjs\<close>, and only \<^verbatim>\<open>sub.cjs\<close> is on disk.
\<close>

definition subManifest :: PackageJSON where
  "subManifest =
     demoManifest\<lparr>files := files demoManifest @ [''sub.cjs''],
                  exports := Some [(''./sub'', Conditional ''./sub.mjs'' ''./sub.cjs'')]\<rparr>"

definition subEntries :: "(string \<times> node) list" where
  "subEntries = demoEntries @ [(''sub.cjs'', File (text_of ''module.exports = 2;''))]"

text \<open>The small build with two files left over, one of them in a directory.\<close>

definition leftoverEntries :: "(string \<times> node) list" where
  "leftoverEntries =
     demoEntries @ [(''extra.txt'', File (text_of ''x'')),
                    (''tmp'', Dir [(''x.js'', File (text_of ''x''))])]"



section \<open>Vocabulary of the proofs\<close>

text \<open>
  \<open>extends k st st'\<close>: from \<open>st\<close> to \<open>st'\<close> the disk is unchanged and the calls added to
  the trace all belong to stage \<open>k\<close>.
\<close>

definition extends :: "nat \<Rightarrow> state \<Rightarrow> state \<Rightarrow> bool" where
  "extends k st st' \<longleftrightarrow>
     disk st' = disk st \<and> (\<exists>evs. trace st' = trace st @ evs \<and> (\<forall>e \<in> set evs. phase e = k))"

text \<open>The task whose request completes at step \<open>n\<close> of a batch.\<close>

definition pick :: "platform \<Rightarrow> nat \<Rightarrow> nat \<Rightarrow> string list list \<Rightarrow> string list" where
  "pick pf batch n tasks = pending tasks ! (completionOrder pf batch n mod length (pending tasks))"

text \<open>
  \<open>failure cfg d paths out\<close>: \<open>out\<close> is the report and exit of \<^verbatim>\<open>validatePath\<close> for one of
  \<open>paths\<close> that \<^verbatim>\<open>access\<close> rejects on the disk \<open>d\<close>.
\<close>

definition failure :: "BuildConfig \<Rightarrow> node \<Rightarrow> string list \<Rightarrow> outcome \<Rightarrow> bool" where
  "failure cfg d paths out \<longleftrightarrow>
     (\<exists>p \<in> set paths. \<exists>e. access d (join (pkgDir cfg) p) = Some e
        \<and> out = Exit1 (pathError cfg (Some p) e))"

text \<open>The state after the calls that start the first check of each of \<open>qs\<close>.\<close>

definition entryCalls :: "BuildConfig \<Rightarrow> string list \<Rightarrow> state \<Rightarrow> state" where
  "entryCalls cfg qs st = snd (callAll cfg (map Some qs) st)"

section \<open>Lemmas\<close>

subsection \<open>The file validator\<close>

lemma disk_log: "disk (log e st) = disk st"
  by (simp add: log_def)

lemma trace_log: "trace (log e st) = trace st @ [e]"
  by (simp add: log_def)

lemma validateTypeScriptFile_state:
  "snd (validateTypeScriptFile pf cfg f st) = log (TypeCheck f) st"
  by (simp add: validateTypeScriptFile_def Let_def)

lemma parseJsonFile_state: "snd (parseJsonFile pf f st) = log (ReadFileSync f) st"
  by (simp add: parseJsonFile_def readFileSync_def split: sum.splits)

lemma require_state: "snd (require pf p st) = log (Require p) (st\<lparr>disk := snd (requireModule pf p (disk st))\<rparr>)"
  by (simp add: require_def split: prod.splits)

lemma dynamicImport_state: "snd (dynamicImport pf p st) = log (Import p) (st\<lparr>disk := snd (importModule pf p (disk st))\<rparr>)"
  by (simp add: dynamicImport_def split: prod.splits)

lemma readUnknown_state:
  "snd (case readFileSync f st of
           (Inl e, st1) \<Rightarrow> (Some e, st1)
         | (Inr content, st1) \<Rightarrow>
             if trim content = [] then (Some (Error ''empty file''), st1) else (None, st1)) = log (ReadFileSync f) st"
  by (simp add: readFileSync_def split: sum.splits)

lemma validateFile_cjs:
  "extname f = ''.cjs'' \<Longrightarrow> validateFile pf cfg f st = require pf f st"
  by (simp add: validateFile_def)

lemma validateFile_mjs_esmNode:
  "extname f = ''.mjs'' \<Longrightarrow> esmNode cfg \<Longrightarrow>
   validateFile pf cfg f st = dynamicImport pf (pathToFileURL_href pf f) st"
  by (simp add: validateFile_def)

lemma validateFile_mjs_fallthrough:
  "extname f = ''.mjs'' \<Longrightarrow> \<not> esmNode cfg \<Longrightarrow>
   validateFile pf cfg f st = validateTypeScriptFile pf cfg f st"
  by (simp add: validateFile_def)

lemma validateFile_ts:
  "extname f = ''.ts'' \<Longrightarrow> validateFile pf cfg f st = validateTypeScriptFile pf cfg f st"
  by (simp add: validateFile_def)

lemma validateFile_json:
  "extname f = ''.json'' \<Longrightarrow> validateFile pf cfg f st = parseJsonFile pf f st"
  by (simp add: validateFile_def)

lemma validateFile_map:
  "extname f = ''.map'' \<Longrightarrow> validateFile pf cfg f st = parseJsonFile pf f st"
  by (simp add: validateFile_def)

lemma validateFile_default:
  "extname f \<noteq> ''.cjs'' \<Longrightarrow> extname f \<noteq> ''.mjs'' \<Longrightarrow> extname f \<noteq> ''.ts'' \<Longrightarrow>
   extname f \<noteq> ''.json'' \<Longrightarrow> extname f \<noteq> ''.map'' \<Longrightarrow>
   validateFile pf cfg f st =
     (case readFileSync f st of
        (Inl e, st1) \<Rightarrow> (Some e, st1)
      | (Inr content, st1) \<Rightarrow>
          if trim content = [] then (Some (Error ''empty file''), st1) else (None, st1))"
  by (simp add: validateFile_def)

lemma fileCall_cjs: "extname f = ''.cjs'' \<Longrightarrow> fileCall pf cfg f = Require f"
  by (simp add: fileCall_def)

lemma fileCall_mjs_esmNode:
  "extname f = ''.mjs'' \<Longrightarrow> esmNode cfg \<Longrightarrow> fileCall pf cfg f = Import (pathToFileURL_href pf f)"
  by (simp add: fileCall_def)

lemma fileCall_mjs_fallthrough:
  "extname f = ''.mjs'' \<Longrightarrow> \<not> esmNode cfg \<Longrightarrow> fileCall pf cfg f = TypeCheck f"
  by (simp add: fileCall_def)

lemma fileCall_ts: "extname f = ''.ts'' \<Longrightarrow> fileCall pf cfg f = TypeCheck f"
  by (simp add: fileCall_def)

lemma fileCall_read:
  "extname f \<noteq> ''.cjs'' \<Longrightarrow> extname f \<noteq> ''.mjs'' \<Longrightarrow> extname f \<noteq> ''.ts'' \<Longrightarrow>
   fileCall pf cfg f = ReadFileSync f"
  by (simp add: fileCall_def)

lemma extname_cases:
  obtains (cjs) "extname f = ''.cjs''"
  | (esm) "extname f = ''.mjs''" "esmNode cfg"
  | (fallthrough) "extname f = ''.mjs''" "\<not> esmNode cfg"
  | (ts) "extname f = ''.ts''"
  | (json) "extname f = ''.json''"
  | (map) "extname f = ''.map''"
  | (default) "extname f \<noteq> ''.cjs''" "extname f \<noteq> ''.mjs''" "extname f \<noteq> ''.ts''"
      "extname f \<noteq> ''.json''" "extname f \<noteq> ''.map''"
  by blast

lemma validateFile_state:
  "snd (validateFile pf cfg f st) = log (fileCall pf cfg f)
     (if extname f = ''.cjs'' then st\<lparr>disk := snd (requireModule pf f (disk st))\<rparr>
      else if extname f = ''.mjs'' \<and> esmNode cfg
        then st\<lparr>disk := snd (importModule pf (pathToFileURL_href pf f) (disk st))\<rparr>
      else st)"
proof (cases rule: extname_cases [where f = f and cfg = cfg])
  case cjs
  then show ?thesis by (simp add: validateFile_cjs fileCall_cjs require_state)
next
  case esm
  then show ?thesis by (simp add: validateFile_mjs_esmNode fileCall_mjs_esmNode dynamicImport_state)
next
  case fallthrough
  then show ?thesis
    by (simp add: validateFile_mjs_fallthrough fileCall_mjs_fallthrough validateTypeScriptFile_state)
next
  case ts
  then show ?thesis by (simp add: validateFile_ts fileCall_ts validateTypeScriptFile_state)
next
  case json
  then show ?thesis by (simp add: validateFile_json fileCall_read parseJsonFile_state)
next
  case map
  then show ?thesis by (simp add: validateFile_map fileCall_read parseJsonFile_state)
next
  case default
  then show ?thesis by (simp add: validateFile_default fileCall_read readUnknown_state)
qed


lemma validateFile_disk:
  assumes "\<And>p d. snd (requireModule pf p d) = d" and "\<And>p d. snd (importModule pf p d) = d"
  shows "disk (snd (validateFile pf cfg f st)) = disk st"
  by (simp add: validateFile_state disk_log assms)


lemma validateFiles_Cons_None:
  "validateFile pf cfg f st = (None, st1) \<Longrightarrow>
   validateFiles pf cfg (f # fs) st = validateFiles pf cfg fs st1"
  by simp

lemma validateFiles_Cons_Some:
  "validateFile pf cfg f st = (Some e, st1) \<Longrightarrow>
   validateFiles pf cfg (f # fs) st = (Some (Exit1 (fileError f e)), st1)"
  by simp

lemma validateFiles_disk:
  assumes "\<And>p d. snd (requireModule pf p d) = d" and "\<And>p d. snd (importModule pf p d) = d"
  shows "disk (snd (validateFiles pf cfg fs st)) = disk st"
proof (induction fs arbitrary: st)
  case Nil
  show ?case by simp
next
  case (Cons f fs)
  obtain r st1 where v: "validateFile pf cfg f st = (r, st1)"
    by (cases "validateFile pf cfg f st")
  have d: "disk st1 = disk st"
    using validateFile_disk [OF assms, of cfg f st] v by simp
  show ?case
  proof (cases r)
    case None
    with v have "validateFiles pf cfg (f # fs) st = validateFiles pf cfg fs st1"
      by (simp only: validateFiles_Cons_None)
    then show ?thesis using d Cons.IH [of st1] by simp
  next
    case (Some e)
    with v have "validateFiles pf cfg (f # fs) st = (Some (Exit1 (fileError f e)), st1)"
      by (simp only: validateFiles_Cons_Some)
    then show ?thesis using d by simp
  qed
qed


declare validateFiles.simps [simp del]

subsection \<open>The entry-point resolver\<close>

lemma extends_refl: "extends k st st"
  by (simp add: extends_def)

lemma extends_log: "phase e = k \<Longrightarrow> extends k st (log e st)"
  by (simp add: extends_def log_def)

lemma extends_trans: "extends k st st1 \<Longrightarrow> extends k st1 st2 \<Longrightarrow> extends k st st2"
  by (auto simp: extends_def)

lemma extends_disk: "extends k st st' \<Longrightarrow> disk st' = disk st"
  by (simp add: extends_def)

lemma callAll_extends: "extends 2 st (snd (callAll cfg ps st))"
proof (induction ps arbitrary: st)
  case Nil
  show ?case by (simp add: extends_refl)
next
  case (Cons p ps)
  show ?case
  proof (cases p)
    case None
    then show ?thesis by (simp add: validatePath_call_def extends_refl)
  next
    case (Some q)
    have "extends 2 st (log (Access (join (pkgDir cfg) q)) st)"
      by (simp add: extends_log)
    then show ?thesis
      using Some Cons.IH [of "log (Access (join (pkgDir cfg) q)) st"]
      by (simp add: validatePath_call_def extends_trans)
  qed
qed

lemma callAll_absent:
  "None \<in> set ps \<Longrightarrow> fst (callAll cfg ps st) = Some (Exit1 (pathError cfg None TypeError))"
proof (induction ps arbitrary: st)
  case Nil
  then show ?case by simp
next
  case (Cons p ps)
  show ?case
  proof (cases p)
    case None
    then show ?thesis by (simp add: validatePath_call_def)
  next
    case (Some q)
    with Cons.prems have "None \<in> set ps" by simp
    then show ?thesis using Some Cons.IH by (simp add: validatePath_call_def)
  qed
qed

lemma callAll_present: "fst (callAll cfg (map Some qs) st) = None"
  by (induction qs arbitrary: st) (simp_all add: validatePath_call_def)

lemma callAll_present_trace:
  "trace (snd (callAll cfg (map Some qs) st))
     = trace st @ map (\<lambda>q. Access (join (pkgDir cfg) q)) qs"
  by (induction qs arbitrary: st) (simp_all add: validatePath_call_def trace_log)

lemma set_concat_pending: "set (concat (pending tasks)) = set (concat tasks)"
  by (induction tasks) (auto simp: pending_def)

lemma set_concat_update_tl:
  assumes "i < length xs" and "xs ! i \<noteq> []"
  shows "set (concat xs) = insert (hd (xs ! i)) (set (concat (xs[i := tl (xs ! i)])))"
proof -
  have x: "xs = take i xs @ (xs ! i) # drop (Suc i) xs"
    using assms(1) by (simp add: id_take_nth_drop)
  have u: "xs[i := tl (xs ! i)] = take i xs @ tl (xs ! i) # drop (Suc i) xs"
    using assms(1) by (simp add: upd_conv_take_nth_drop)
  have h: "set (xs ! i) = insert (hd (xs ! i)) (set (tl (xs ! i)))"
    using assms(2) by (cases "xs ! i") simp_all
  have "set (concat xs) = set (concat (take i xs)) \<union> set (xs ! i) \<union> set (concat (drop (Suc i) xs))"
    by (subst x) (simp add: Un_assoc)
  moreover have "set (concat (xs[i := tl (xs ! i)]))
      = set (concat (take i xs)) \<union> set (tl (xs ! i)) \<union> set (concat (drop (Suc i) xs))"
    by (subst u) (simp add: Un_assoc)
  ultimately show ?thesis using h by auto
qed

lemma pick_pending:
  assumes "pending tasks \<noteq> []"
  shows "pick pf batch n tasks \<noteq> []"
    and "set (concat tasks) = insert (hd (pick pf batch n tasks))
           (set (concat ((pending tasks)[completionOrder pf batch n mod length (pending tasks)
                           := tl (pick pf batch n tasks)])))"
proof -
  let ?i = "completionOrder pf batch n mod length (pending tasks)"
  have i: "?i < length (pending tasks)" using assms by simp
  then have "pending tasks ! ?i \<in> set (pending tasks)" by (rule nth_mem)
  then have ne: "pending tasks ! ?i \<noteq> []" by (simp add: pending_def)
  then show "pick pf batch n tasks \<noteq> []" by (simp add: pick_def)
  from set_concat_update_tl [OF i ne]
  show "set (concat tasks) = insert (hd (pick pf batch n tasks))
           (set (concat ((pending tasks)[?i := tl (pick pf batch n tasks)])))"
    unfolding pick_def set_concat_pending .
qed

lemma promiseAll_done:
  "pending tasks = [] \<Longrightarrow> promiseAll pf cfg batch n tasks st = (None, st)"
  by (subst promiseAll.simps) simp

lemma promiseAll_failed:
  "pending tasks \<noteq> [] \<Longrightarrow>
   access (disk st) (join (pkgDir cfg) (hd (pick pf batch n tasks))) = Some e \<Longrightarrow>
   promiseAll pf cfg batch n tasks st
     = (Some (Exit1 (pathError cfg (Some (hd (pick pf batch n tasks))) e)), st)"
  by (subst promiseAll.simps) (simp add: Let_def validatePath_completed_def pick_def)

lemma promiseAll_step:
  "pending tasks \<noteq> [] \<Longrightarrow>
   access (disk st) (join (pkgDir cfg) (hd (pick pf batch n tasks))) = None \<Longrightarrow>
   promiseAll pf cfg batch n tasks st
     = promiseAll pf cfg batch (Suc n)
         ((pending tasks)[completionOrder pf batch n mod length (pending tasks)
            := tl (pick pf batch n tasks)])
         (snd (callAll cfg (map Some (take 1 (tl (pick pf batch n tasks)))) st))"
  apply (subst promiseAll.simps)
  apply (simp add: Let_def validatePath_completed_def pick_def split: prod.splits option.splits)
  apply (metis callAll_present fst_conv option.distinct(1))
  done

lemma promiseAll_measure:
  assumes "pending tasks \<noteq> []"
  shows "sum_list (map length ((pending tasks)[completionOrder pf batch n mod length (pending tasks)
            := tl (pick pf batch n tasks)])) < sum_list (map length tasks)"
proof -
  let ?i = "completionOrder pf batch n mod length (pending tasks)"
  have i: "?i < length (pending tasks)" using assms by simp
  have ne: "pending tasks ! ?i \<noteq> []" using pick_pending(1) [OF assms] by (simp add: pick_def)
  from sum_length_tl [OF i ne] show ?thesis
    unfolding pick_def sum_length_pending .
qed

lemma failure_mono: "failure cfg d ps out \<Longrightarrow> set ps \<subseteq> set qs \<Longrightarrow> failure cfg d qs out"
  by (auto simp: failure_def)

lemma promiseAll_props:
  "extends 2 st (snd (promiseAll pf cfg batch n tasks st))
   \<and> (fst (promiseAll pf cfg batch n tasks st) = None
        \<longleftrightarrow> (\<forall>p \<in> set (concat tasks). access (disk st) (join (pkgDir cfg) p) = None))
   \<and> (\<forall>out. fst (promiseAll pf cfg batch n tasks st) = Some out
        \<longrightarrow> failure cfg (disk st) (concat tasks) out)"
proof (induction "sum_list (map length tasks)" arbitrary: tasks n st rule: less_induct)
  case less
  show ?case
  proof (cases "pending tasks = []")
    case True
    then have "set (concat (pending tasks)) = {}" by simp
    then have "set (concat tasks) = {}" by (simp only: set_concat_pending)
    then have "\<forall>p \<in> set (concat tasks). access (disk st) (join (pkgDir cfg) p) = None"
      by (simp only: ball_empty)
    then show ?thesis unfolding promiseAll_done [OF True] by (simp add: extends_refl)
  next
    case False
    define p where "p = hd (pick pf batch n tasks)"
    define tasks' where "tasks' = (pending tasks)[completionOrder pf batch n mod length (pending tasks)
            := tl (pick pf batch n tasks)]"
    have mem: "set (concat tasks) = insert p (set (concat tasks'))"
      unfolding p_def tasks'_def by (rule pick_pending(2) [OF False])
    show ?thesis
    proof (cases "access (disk st) (join (pkgDir cfg) p)")
      case (Some e)
      have r: "promiseAll pf cfg batch n tasks st = (Some (Exit1 (pathError cfg (Some p) e)), st)"
        using Some unfolding p_def by (rule promiseAll_failed [OF False])
      have "p \<in> set (concat tasks)" by (subst mem) simp
      then have f: "failure cfg (disk st) (concat tasks) (Exit1 (pathError cfg (Some p) e))"
        and n: "\<not> (\<forall>p \<in> set (concat tasks). access (disk st) (join (pkgDir cfg) p) = None)"
        using Some unfolding failure_def by auto
      show ?thesis unfolding r using f n by (simp add: extends_refl)
    next
      case None
      define st' where "st' = snd (callAll cfg (map Some (take 1 (tl (pick pf batch n tasks)))) st)"
      have r: "promiseAll pf cfg batch n tasks st = promiseAll pf cfg batch (Suc n) tasks' st'"
        using None unfolding p_def tasks'_def st'_def by (rule promiseAll_step [OF False])
      have e: "extends 2 st st'" unfolding st'_def by (rule callAll_extends)
      then have d: "disk st' = disk st" by (rule extends_disk)
      have less: "sum_list (map length tasks') < sum_list (map length tasks)"
        unfolding tasks'_def by (rule promiseAll_measure [OF False])
      have IH1: "extends 2 st' (snd (promiseAll pf cfg batch (Suc n) tasks' st'))"
        and IH2: "fst (promiseAll pf cfg batch (Suc n) tasks' st') = None
             \<longleftrightarrow> (\<forall>p \<in> set (concat tasks'). access (disk st') (join (pkgDir cfg) p) = None)"
        and IH3: "\<forall>out. fst (promiseAll pf cfg batch (Suc n) tasks' st') = Some out
             \<longrightarrow> failure cfg (disk st') (concat tasks') out"
        using less.hyps [OF less, where n = "Suc n" and st = st'] by blast+
      have a: "extends 2 st (snd (promiseAll pf cfg batch n tasks st))"
        unfolding r using e IH1 by (rule extends_trans)
      have b: "fst (promiseAll pf cfg batch n tasks st) = None
        \<longleftrightarrow> (\<forall>p \<in> set (concat tasks). access (disk st) (join (pkgDir cfg) p) = None)"
        unfolding r IH2 d mem using None by blast
      have sub: "set (concat tasks') \<subseteq> set (concat tasks)" by (subst mem) (rule subset_insertI)
      have c: "\<forall>out. fst (promiseAll pf cfg batch n tasks st) = Some out
             \<longrightarrow> failure cfg (disk st) (concat tasks) out"
        unfolding r using IH3 sub unfolding d by (blast intro: failure_mono)
      show ?thesis by (intro conjI a b c)
    qed
  qed
qed

lemma promiseAll_extends: "extends 2 st (snd (promiseAll pf cfg batch n tasks st))"
  using promiseAll_props by simp

lemma promiseAll_fulfilled:
  "fst (promiseAll pf cfg batch n tasks st) = None
     \<longleftrightarrow> (\<forall>p \<in> set (concat tasks). access (disk st) (join (pkgDir cfg) p) = None)"
  using promiseAll_props by simp

lemma promiseAll_rejected:
  "fst (promiseAll pf cfg batch n tasks st) = Some out \<Longrightarrow> failure cfg (disk st) (concat tasks) out"
  using promiseAll_props by simp

lemma callAll_present_eq:
  "callAll cfg (map Some qs) st = (None, snd (callAll cfg (map Some qs) st))"
  using callAll_present [of cfg qs st] by (cases "callAll cfg (map Some qs) st") simp

lemma validatePackageJson_absent:
  assumes "main pkg = None \<or> module pkg = None \<or> types pkg = None"
  shows "fst (validatePackageJson pf cfg pkg st) = Some (Exit1 (pathError cfg None TypeError))"
proof -
  have "None \<in> set [main pkg, module pkg, types pkg]" using assms by auto
  then have "fst (callAll cfg [main pkg, module pkg, types pkg] st)
      = Some (Exit1 (pathError cfg None TypeError))" by (rule callAll_absent)
  then show ?thesis
    by (cases "callAll cfg [main pkg, module pkg, types pkg] st")
       (simp add: validatePackageJson_def)
qed

lemma entryCalls_extends: "extends 2 st (entryCalls cfg qs st)"
  unfolding entryCalls_def by (rule callAll_extends)

lemma validatePackageJson_present:
  assumes "main pkg = Some m" and "module pkg = Some mo" and "types pkg = Some t"
  shows "validatePackageJson pf cfg pkg st =
     (case promiseAll pf cfg 0 0 [[m], [mo], [t]] (entryCalls cfg [m, mo, t] st) of
        (Some out, st2) \<Rightarrow> (Some out, st2)
      | (None, st2) \<Rightarrow>
          (case exports pkg of
             None \<Rightarrow> (Some (Uncaught TypeError), st2)
           | Some exps \<Rightarrow>
               promiseAll pf cfg 1 0 (map exportTask exps)
                 (entryCalls cfg (map (\<lambda>e. hd (exportTask e)) exps) st2)))"
proof -
  have a: "callAll cfg [main pkg, module pkg, types pkg] st = (None, entryCalls cfg [m, mo, t] st)"
    using callAll_present_eq [of cfg "[m, mo, t]" st] assms by (simp add: entryCalls_def)
  have b: "List.map_filter id [main pkg, module pkg, types pkg] = [m, mo, t]"
    using assms by (simp add: List.map_filter_def)
  have c: "\<And>exps st2. callAll cfg (map (\<lambda>e. Some (hd (exportTask e))) exps) st2
      = (None, entryCalls cfg (map (\<lambda>e. hd (exportTask e)) exps) st2)"
    using callAll_present_eq [of cfg "map (\<lambda>e. hd (exportTask e)) _" ]
    by (simp add: entryCalls_def comp_def)
  show ?thesis
    unfolding validatePackageJson_def a b by (simp add: c split: prod.splits option.splits)
qed


lemma validatePackageJson_result:
  assumes p: "main pkg = Some m" "module pkg = Some mo" "types pkg = Some t"
    and x: "exports pkg = Some exps"
  shows "(fst (validatePackageJson pf cfg pkg st) = None
            \<longleftrightarrow> (\<forall>q \<in> set ([m, mo, t] @ concat (map exportTask exps)).
                   access (disk st) (join (pkgDir cfg) q) = None))"
    and "fst (validatePackageJson pf cfg pkg st) = Some out \<Longrightarrow>
           failure cfg (disk st) ([m, mo, t] @ concat (map exportTask exps)) out"
proof -
  define st1 where "st1 = entryCalls cfg [m, mo, t] st"
  have d1: "disk st1 = disk st"
    unfolding st1_def using entryCalls_extends by (rule extends_disk)
  obtain o2 st2 where r2: "promiseAll pf cfg 0 0 [[m], [mo], [t]] st1 = (o2, st2)"
    by (cases "promiseAll pf cfg 0 0 [[m], [mo], [t]] st1")
  have d2: "disk st2 = disk st"
    using promiseAll_extends [of st1 pf cfg 0 0 "[[m], [mo], [t]]"] r2 d1
    by (simp add: extends_def)
  define st3 where "st3 = entryCalls cfg (map (\<lambda>e. hd (exportTask e)) exps) st2"
  have d3: "disk st3 = disk st"
    unfolding st3_def using entryCalls_extends [of st2] d2 by (simp add: extends_def)
  have o2_None: "o2 = None \<longleftrightarrow> (\<forall>q \<in> set [m, mo, t]. access (disk st) (join (pkgDir cfg) q) = None)"
    using promiseAll_fulfilled [of pf cfg 0 0 "[[m], [mo], [t]]" st1] r2 d1 by simp
  have o2_Some: "\<And>out. o2 = Some out \<Longrightarrow> failure cfg (disk st) [m, mo, t] out"
    using promiseAll_rejected [of pf cfg 0 0 "[[m], [mo], [t]]" st1] r2 d1 by simp
  have v: "validatePackageJson pf cfg pkg st =
     (case o2 of Some out \<Rightarrow> (Some out, st2)
      | None \<Rightarrow> promiseAll pf cfg 1 0 (map exportTask exps) st3)"
    unfolding validatePackageJson_present [OF p] st1_def [symmetric] r2 x st3_def
    by (simp split: option.splits)
  show "fst (validatePackageJson pf cfg pkg st) = None
            \<longleftrightarrow> (\<forall>q \<in> set ([m, mo, t] @ concat (map exportTask exps)).
                   access (disk st) (join (pkgDir cfg) q) = None)"
  proof (cases o2)
    case None
    then have "\<forall>q \<in> set [m, mo, t]. access (disk st) (join (pkgDir cfg) q) = None"
      using o2_None by simp
    then show ?thesis
      unfolding v using None promiseAll_fulfilled [of pf cfg 1 0 "map exportTask exps" st3]
      by (simp add: d3 ball_Un)
  next
    case (Some out)
    then have "\<not> (\<forall>q \<in> set [m, mo, t]. access (disk st) (join (pkgDir cfg) q) = None)"
      using o2_None by simp
    then have "\<not> (\<forall>q \<in> set ([m, mo, t] @ concat (map exportTask exps)).
                   access (disk st) (join (pkgDir cfg) q) = None)"
      unfolding set_append ball_Un by (rule contrapos_nn) (rule conjunct1)
    then show ?thesis unfolding v using Some by simp
  qed
  show "failure cfg (disk st) ([m, mo, t] @ concat (map exportTask exps)) out"
    if "fst (validatePackageJson pf cfg pkg st) = Some out"
  proof (cases o2)
    case None
    then have "fst (promiseAll pf cfg 1 0 (map exportTask exps) st3) = Some out"
      using that unfolding v by simp
    then have "failure cfg (disk st) (concat (map exportTask exps)) out"
      using promiseAll_rejected [of pf cfg 1 0 "map exportTask exps" st3 out] d3 by simp
    then show ?thesis by (rule failure_mono) auto
  next
    case (Some out')
    then have "out' = out" using that unfolding v by simp
    then have "failure cfg (disk st) [m, mo, t] out" using o2_Some Some by simp
    then show ?thesis by (rule failure_mono) simp
  qed
qed

lemma validatePackageJson_exports_absent:
  assumes p: "main pkg = Some m" "module pkg = Some mo" "types pkg = Some t"
    and x: "exports pkg = None"
    and ok: "\<forall>q \<in> set [m, mo, t]. access (disk st) (join (pkgDir cfg) q) = None"
  shows "fst (validatePackageJson pf cfg pkg st) = Some (Uncaught TypeError)"
proof -
  define st1 where "st1 = entryCalls cfg [m, mo, t] st"
  have d1: "disk st1 = disk st"
    unfolding st1_def using entryCalls_extends by (rule extends_disk)
  obtain o2 st2 where r2: "promiseAll pf cfg 0 0 [[m], [mo], [t]] st1 = (o2, st2)"
    by (cases "promiseAll pf cfg 0 0 [[m], [mo], [t]] st1")
  have "o2 = None"
    using promiseAll_fulfilled [of pf cfg 0 0 "[[m], [mo], [t]]" st1] r2 d1 ok by simp
  then show ?thesis
    unfolding validatePackageJson_present [OF p] st1_def [symmetric] r2 x by simp
qed

subsection \<open>The tree scanner and the whole run\<close>



lemma validateBuild_unreadable:
  "readAt (disk st) (join (pkgDir cfg) ''package.json'') = Inl e \<Longrightarrow>
   validateBuild pf cfg st = (Uncaught e, log (ReadFile (join (pkgDir cfg) ''package.json'')) st)"
  by (simp add: validateBuild_def readFile_def)

lemma validateBuild_unparsable:
  "readAt (disk st) (join (pkgDir cfg) ''package.json'') = Inr content \<Longrightarrow>
   JSON_parse pf content = Inl e \<Longrightarrow>
   validateBuild pf cfg st = (Uncaught e, log (ReadFile (join (pkgDir cfg) ''package.json'')) st)"
  by (simp add: validateBuild_def readFile_def)

lemma validateBuild_loaded:
  "readAt (disk st) (join (pkgDir cfg) ''package.json'') = Inr content \<Longrightarrow>
   JSON_parse pf content = Inr pkg \<Longrightarrow>
   validateBuild pf cfg st =
     (case validateFiles pf cfg (map (join (pkgDir cfg)) (files pkg))
             (log (ReadFile (join (pkgDir cfg) ''package.json'')) st) of
        (Some out, st2) \<Rightarrow> (out, st2)
      | (None, st2) \<Rightarrow>
          (case validatePackageJson pf cfg pkg st2 of
             (Some out, st3) \<Rightarrow> (out, st3)
           | (None, st3) \<Rightarrow> scanTree pf cfg (map (join (pkgDir cfg)) (files pkg)) st3))"
  by (simp add: validateBuild_def readFile_def Let_def)




subsection \<open>More about the stages\<close>

lemma demoRequire_disk: "snd (demoRequire path d) = d"
  by (simp add: demoRequire_def split: sum.splits node.splits option.splits)

lemma demoImport_disk: "snd (demoImport href d) = d"
  by (simp add: demoImport_def split: sum.splits node.splits)

lemma platformWith_loaders:
  "snd (requireModule (platformWith pkg) path d) = d"
  "snd (importModule (platformWith pkg) href d) = d"
  by (simp_all add: platformWith_def demoRequire_disk demoImport_disk)

lemma existsAt_access: "existsAt root path \<longleftrightarrow> access root path = None"
  by (simp add: existsAt_def access_def split: sum.splits)

lemma readAt_missing: "\<not> existsAt root path \<Longrightarrow> \<exists>e. readAt root path = Inl e"
  by (auto simp: existsAt_def readAt_def split: sum.splits)

lemma readAt_directory: "resolve root path = Inr (Dir es) \<Longrightarrow> readAt root path = Inl EISDIR"
  by (simp add: readAt_def)

lemma trim_empty: "trim s = [] \<longleftrightarrow> (\<forall>c \<in> set s. isWhiteSpace c)"
proof
  assume t: "trim s = []"
  show "\<forall>c \<in> set s. isWhiteSpace c"
  proof (rule ccontr)
    assume "\<not> (\<forall>c \<in> set s. isWhiteSpace c)"
    then have ne: "dropWhile isWhiteSpace s \<noteq> []" by (simp add: dropWhile_eq_Nil_conv)
    then have h: "\<not> isWhiteSpace (hd (dropWhile isWhiteSpace s))" by (rule hd_dropWhile)
    from t have "\<forall>c \<in> set (dropWhile isWhiteSpace s). isWhiteSpace c"
      by (simp add: trim_def dropWhile_eq_Nil_conv)
    moreover have "hd (dropWhile isWhiteSpace s) \<in> set (dropWhile isWhiteSpace s)"
      using ne by (rule hd_in_set)
    ultimately show False using h by simp
  qed
next
  assume "\<forall>c \<in> set s. isWhiteSpace c"
  then have d: "dropWhile isWhiteSpace s = []" by (simp add: dropWhile_eq_Nil_conv)
  show "trim s = []" unfolding trim_def d by simp
qed

lemma validateFile_read_default:
  assumes "extname f \<noteq> ''.cjs''" "extname f \<noteq> ''.mjs''" "extname f \<noteq> ''.ts''"
    "extname f \<noteq> ''.json''" "extname f \<noteq> ''.map''"
  shows "validateFile pf cfg f st =
     (case readAt (disk st) f of
        Inl e \<Rightarrow> Some e
      | Inr content \<Rightarrow> if trim content = [] then Some (Error ''empty file'') else None,
      log (ReadFileSync f) st)"
  unfolding validateFile_default [OF assms] readFileSync_def
  by (simp split: sum.splits)

lemma require_thrown: "fst (require pf path st) = fst (requireModule pf path (disk st))"
  by (cases "requireModule pf path (disk st)") (simp add: require_def)

lemma dynamicImport_thrown:
  "fst (dynamicImport pf href st) = fst (importModule pf href (disk st))"
  by (cases "importModule pf href (disk st)") (simp add: dynamicImport_def)

lemma getFiles_actualFiles:
  "getFiles dir n allFiles st = (Inr fs, st') \<Longrightarrow>
     \<exists>es. n = Dir es \<and> fs = allFiles @ actualFiles dir es"
  "forEachPath dir es allFiles st = (Inr fs, st') \<Longrightarrow> fs = allFiles @ actualFiles dir es"
proof (induction dir n allFiles st and dir es allFiles st arbitrary: fs st' and fs st'
    rule: getFiles_forEachPath.induct)
  case (1 dir es allFiles st)
  then show ?case by simp
next
  case (2 dir c allFiles st)
  then show ?case by simp
next
  case (3 dir r allFiles st)
  then show ?case by simp
next
  case (4 dir allFiles st)
  then show ?case by simp
next
  case (5 dir entry es allFiles st)
  define filePath where "filePath = join dir (fst entry)"
  define st1 where "st1 = log (StatSync filePath) st"
  show ?case
  proof (cases "snd entry")
    case (File c)
    then have "forEachPath dir es (allFiles @ [filePath]) st1 = (Inr fs, st')"
      using "5.prems" unfolding filePath_def st1_def by (simp add: Let_def)
    then have "fs = (allFiles @ [filePath]) @ actualFiles dir es"
      using "5.IH"(3) [OF filePath_def st1_def] File by simp
    then show ?thesis using File by (simp add: filePath_def)
  next
    case (Dir sub)
    obtain r st2 where g: "getFiles filePath (snd entry) allFiles st1 = (r, st2)"
      by (cases "getFiles filePath (snd entry) allFiles st1")
    show ?thesis
    proof (cases r)
      case (Inl e)
      then show ?thesis
        using "5.prems" g Dir unfolding filePath_def st1_def by (simp add: Let_def)
    next
      case (Inr allFiles2)
      have a: "allFiles2 = allFiles @ actualFiles filePath sub"
        using "5.IH"(1) [OF filePath_def st1_def, of allFiles2 st2] g Inr Dir by simp
      have "forEachPath dir es allFiles2 st2 = (Inr fs, st')"
        using "5.prems" g Dir Inr unfolding filePath_def st1_def by (simp add: Let_def)
      then have "fs = allFiles2 @ actualFiles dir es"
        using "5.IH"(2) [OF filePath_def st1_def _ g [symmetric], of allFiles2 fs st'] Dir Inr
        by simp
      then show ?thesis using a Dir by (simp add: filePath_def)
    qed
  next
    case (Special r)
    then show ?thesis using "5.prems" by (simp add: Let_def)
  qed
qed

lemma sublist_within:
  assumes "sublist xs ys"
  shows "sublist xs (ps @ ys @ ss)"
proof -
  from assms obtain a b where "ys = a @ xs @ b" by (auto simp: sublist_def)
  then have "ps @ ys @ ss = (ps @ a) @ xs @ (b @ ss)" by simp
  then show ?thesis unfolding sublist_def by (intro exI)
qed

lemma sublist_joinWith: "f \<in> set fs \<Longrightarrow> sublist f (joinWith sep fs)"
proof (induction sep fs rule: joinWith.induct)
  case (1 sep)
  then show ?case by simp
next
  case (2 sep s)
  then show ?case by simp
next
  case (3 sep s t ss)
  show ?case
  proof (cases "f = s")
    case True
    then show ?thesis by simp
  next
    case False
    then have "sublist f (joinWith sep (t # ss))" using 3 by simp
    then have "sublist f ((s @ sep) @ joinWith sep (t # ss) @ [])" by (rule sublist_within)
    then show ?thesis by simp
  qed
qed

lemma sublist_unexpectedMessage:
  assumes "f \<in> set fs"
  shows "sublist f (unexpectedMessage pf fs)"
proof -
  have "sublist f (joinWith newline fs)" using assms by (rule sublist_joinWith)
  then have "sublist f ((''Unexpected files found in the package build:'' @ newline)
      @ joinWith newline fs @ (newline @ newline
     @ ''If this is on purpose, add the file(s) to the '' @ quote @ ''PACKAGE_FILES'' @ quote
     @ '' array in '' @ quote @ join (dirname pf) ''package-json.ts'' @ quote))"
    by (rule sublist_within)
  then show ?thesis by (simp add: unexpectedMessage_def)
qed

lemma validateBuild_after_validator:
  assumes "readAt (disk st) (join (pkgDir cfg) ''package.json'') = Inr content"
    and "JSON_parse pf content = Inr pkg"
    and "validateFiles pf cfg (map (join (pkgDir cfg)) (files pkg))
           (log (ReadFile (join (pkgDir cfg) ''package.json'')) st) = (None, st2)"
  shows "validateBuild pf cfg st =
     (case validatePackageJson pf cfg pkg st2 of
        (Some out, st3) \<Rightarrow> (out, st3)
      | (None, st3) \<Rightarrow> scanTree pf cfg (map (join (pkgDir cfg)) (files pkg)) st3)"
  unfolding validateBuild_loaded [OF assms(1,2)] assms(3) by simp

lemma validateBuild_resolver_failed:
  assumes "readAt (disk st) (join (pkgDir cfg) ''package.json'') = Inr content"
    and "JSON_parse pf content = Inr pkg"
    and "validateFiles pf cfg (map (join (pkgDir cfg)) (files pkg))
           (log (ReadFile (join (pkgDir cfg) ''package.json'')) st) = (None, st2)"
    and "fst (validatePackageJson pf cfg pkg st2) = Some out"
  shows "fst (validateBuild pf cfg st) = out"
  unfolding validateBuild_after_validator [OF assms(1,2,3)]
  using assms(4) by (cases "validatePackageJson pf cfg pkg st2") simp

lemma scanTree_scanned:
  assumes "resolve (disk st3) (pkgDir cfg) = Inr n"
    and "getFiles (pkgDir cfg) n [] st3 = (Inr allFiles, st4)"
  shows "scanTree pf cfg expectedFiles st3 =
     (if filter (\<lambda>f. f \<notin> set expectedFiles) allFiles = [] then Validated
      else Exit1 [Str (unexpectedMessage pf (filter (\<lambda>f. f \<notin> set expectedFiles) allFiles))],
      st4)"
  by (simp add: scanTree_def assms Let_def)





text \<open>
  The check of a \<^verbatim>\<open>.ts\<close> file passes whenever the type checker has no semantic and no
  syntactic diagnostic, whatever the disk has at the path.
\<close>

lemma typecheck_without_diagnostics_passes:
  assumes "extname filePath = ''.ts''"
    and "getSemanticDiagnostics pf (join (rootDir cfg) ''tsconfig.json'') (rootDir cfg) filePath
           (disk st) = []"
    and "getSyntacticDiagnostics pf (join (rootDir cfg) ''tsconfig.json'') (rootDir cfg) filePath
           (disk st) = []"
  shows "validateFile pf cfg filePath st = (None, log (TypeCheck filePath) st)"
  unfolding validateFile_ts [OF assms(1)]
  by (simp add: validateTypeScriptFile_def Let_def assms(2,3))

text \<open>
  The checks that read the file themselves (every extension but \<^verbatim>\<open>.cjs\<close>, \<^verbatim>\<open>.mjs\<close>,
  \<^verbatim>\<open>.ts\<close>) end the run at a declared file that is not on disk.
\<close>

lemma missing_file_read_fails:
  assumes "extname filePath \<noteq> ''.cjs''" "extname filePath \<noteq> ''.mjs''" "extname filePath \<noteq> ''.ts''"
    and "\<not> existsAt (disk st) filePath"
  shows "\<exists>e. validateFiles pf cfg (filePath # rest) st
           = (Some (Exit1 (fileError filePath e)), log (ReadFileSync filePath) st)"
proof -
  obtain e where r: "readAt (disk st) filePath = Inl e"
    using readAt_missing [OF assms(4)] by (elim exE)
  have "validateFile pf cfg filePath st = (Some e, log (ReadFileSync filePath) st)"
  proof (cases "extname filePath = ''.json'' \<or> extname filePath = ''.map''")
    case True
    then have "validateFile pf cfg filePath st = parseJsonFile pf filePath st"
      using validateFile_json validateFile_map by blast
    then show ?thesis by (simp add: parseJsonFile_def readFileSync_def r)
  next
    case False
    then show ?thesis using assms(1-3) by (simp add: validateFile_read_default r)
  qed
  then have "validateFiles pf cfg (filePath # rest) st
           = (Some (Exit1 (fileError filePath e)), log (ReadFileSync filePath) st)"
    by (rule validateFiles_Cons_Some)
  then show ?thesis by (rule exI)
qed

subsection \<open>A fully valid build and the run\<close>

lemma pathError_text:
  "pathError cfg path e =
     [Str (''Error validating path '' @ [CHR 0x22]
           @ (case path of None \<Rightarrow> ''undefined'' | Some p \<Rightarrow> p) @ [CHR 0x22]
           @ '' inside of '' @ [CHR 0x22] @ join (pkgDir cfg) ''package.json'' @ [CHR 0x22]),
      Err e]"
  by (simp add: pathError_def quote_def)

lemma fileError_text:
  "fileError filePath e = [Str ''Validate Build File Error!'', Str filePath, Err e]"
  by (simp add: fileError_def)







lemma validatePackageJson_no_exports:
  assumes p: "main pkg = Some m" "module pkg = Some mo" "types pkg = Some t"
    and x: "exports pkg = None"
  shows "fst (validatePackageJson pf cfg pkg st) = Some (Uncaught TypeError)
       \<or> (\<exists>r. fst (validatePackageJson pf cfg pkg st) = Some (Exit1 r))"
proof -
  define st1 where "st1 = entryCalls cfg [m, mo, t] st"
  obtain o2 st2 where r2: "promiseAll pf cfg 0 0 [[m], [mo], [t]] st1 = (o2, st2)"
    by (cases "promiseAll pf cfg 0 0 [[m], [mo], [t]] st1")
  show ?thesis
  proof (cases o2)
    case None
    then show ?thesis
      unfolding validatePackageJson_present [OF p] st1_def [symmetric] r2 x by simp
  next
    case (Some out)
    have "failure cfg (disk st1) (concat [[m], [mo], [t]]) out"
      using promiseAll_rejected [of pf cfg 0 0 "[[m], [mo], [t]]" st1 out] r2 Some by simp
    then obtain r where "out = Exit1 r" unfolding failure_def by auto
    then show ?thesis
      unfolding validatePackageJson_present [OF p] st1_def [symmetric] r2 x using Some by simp
  qed
qed

lemma validatePackageJson_entryPoints:
  "fst (validatePackageJson pf cfg pkg st) = None \<longleftrightarrow> entryPointsExist cfg (disk st) pkg"
proof (cases "main pkg = None \<or> module pkg = None \<or> types pkg = None")
  case True
  then have "fst (validatePackageJson pf cfg pkg st) \<noteq> None"
    using validatePackageJson_absent [of pkg pf cfg st] by simp
  moreover have "\<not> entryPointsExist cfg (disk st) pkg"
    using True by (auto simp: entryPointsExist_def split: option.splits)
  ultimately show ?thesis by simp
next
  case False
  then obtain m mo t where p: "main pkg = Some m" "module pkg = Some mo" "types pkg = Some t"
    by auto
  show ?thesis
  proof (cases "exports pkg")
    case None
    have "fst (validatePackageJson pf cfg pkg st) \<noteq> None"
      using validatePackageJson_no_exports [OF p None, of pf cfg st] by auto
    moreover have "\<not> entryPointsExist cfg (disk st) pkg"
      using p None by (simp add: entryPointsExist_def)
    ultimately show ?thesis by simp
  next
    case (Some exps)
    show ?thesis
      unfolding validatePackageJson_result(1) [OF p Some]
      using p Some by (simp add: entryPointsExist_def list_all_iff existsAt_access)
  qed
qed





lemma entryPointsExist_iff:
  "entryPointsExist cfg d pkg \<longleftrightarrow>
     (\<exists>m mo t exps. main pkg = Some m \<and> module pkg = Some mo \<and> types pkg = Some t
        \<and> exports pkg = Some exps
        \<and> (\<forall>q \<in> set ([m, mo, t] @ concat (map exportTask exps)).
              existsAt d (join (pkgDir cfg) q)))"
  by (cases "main pkg"; cases "module pkg"; cases "types pkg"; cases "exports pkg")
     (simp_all add: entryPointsExist_def list_all_iff)

section \<open>The claims\<close>

text \<open>
  C1, as amended. The resolver has no case for an absent field. If \<^verbatim>\<open>main\<close>, \<^verbatim>\<open>module\<close>
  or \<^verbatim>\<open>types\<close> is absent, \<^verbatim>\<open>validatePath\<close> prints
  \<^verbatim>\<open>Error validating path "undefined" inside of "<pkgDir>/package.json"\<close> with the
  \<^verbatim>\<open>TypeError\<close> of \<^verbatim>\<open>path.join\<close> and exits with code 1. If the three are present and exist
  on disk and \<^verbatim>\<open>exports\<close> is absent, the \<^verbatim>\<open>TypeError\<close> of \<^verbatim>\<open>Object.keys\<close> leaves the
  resolver uncaught. The resolver passes if and only if the manifest has all four fields
  and every path they name exists under \<^verbatim>\<open>pkgDir\<close>.
\<close>

theorem C1_absent_field_ends_run:
  "(main pkg = None \<or> module pkg = None \<or> types pkg = None \<longrightarrow>
      fst (validatePackageJson pf cfg pkg st)
        = Some (Exit1 [Str (''Error validating path '' @ [CHR 0x22] @ ''undefined'' @ [CHR 0x22]
                            @ '' inside of '' @ [CHR 0x22] @ join (pkgDir cfg) ''package.json''
                            @ [CHR 0x22]),
                       Err TypeError]))
   \<and> (\<forall>m mo t. main pkg = Some m \<and> module pkg = Some mo \<and> types pkg = Some t
        \<and> existsAt (disk st) (join (pkgDir cfg) m) \<and> existsAt (disk st) (join (pkgDir cfg) mo)
        \<and> existsAt (disk st) (join (pkgDir cfg) t) \<and> exports pkg = None \<longrightarrow>
      fst (validatePackageJson pf cfg pkg st) = Some (Uncaught TypeError))
   \<and> (fst (validatePackageJson pf cfg pkg st) = None \<longleftrightarrow>
        (\<exists>m mo t exps. main pkg = Some m \<and> module pkg = Some mo \<and> types pkg = Some t
           \<and> exports pkg = Some exps
           \<and> (\<forall>q \<in> set ([m, mo, t] @ concat (map exportTask exps)).
                 existsAt (disk st) (join (pkgDir cfg) q))))"
proof -
  have c1: "main pkg = None \<or> module pkg = None \<or> types pkg = None \<longrightarrow>
      fst (validatePackageJson pf cfg pkg st)
        = Some (Exit1 [Str (''Error validating path '' @ [CHR 0x22] @ ''undefined'' @ [CHR 0x22]
                            @ '' inside of '' @ [CHR 0x22] @ join (pkgDir cfg) ''package.json''
                            @ [CHR 0x22]),
                       Err TypeError])"
  proof
    assume "main pkg = None \<or> module pkg = None \<or> types pkg = None"
    then have "fst (validatePackageJson pf cfg pkg st)
        = Some (Exit1 (pathError cfg None TypeError))"
      by (rule validatePackageJson_absent)
    then show "fst (validatePackageJson pf cfg pkg st)
        = Some (Exit1 [Str (''Error validating path '' @ [CHR 0x22] @ ''undefined'' @ [CHR 0x22]
                            @ '' inside of '' @ [CHR 0x22] @ join (pkgDir cfg) ''package.json''
                            @ [CHR 0x22]),
                       Err TypeError])"
      unfolding pathError_text by simp
  qed
  have c2: "\<forall>m mo t. main pkg = Some m \<and> module pkg = Some mo \<and> types pkg = Some t
        \<and> existsAt (disk st) (join (pkgDir cfg) m) \<and> existsAt (disk st) (join (pkgDir cfg) mo)
        \<and> existsAt (disk st) (join (pkgDir cfg) t) \<and> exports pkg = None \<longrightarrow>
      fst (validatePackageJson pf cfg pkg st) = Some (Uncaught TypeError)"
  proof (intro allI impI)
    fix m mo t
    assume a: "main pkg = Some m \<and> module pkg = Some mo \<and> types pkg = Some t
        \<and> existsAt (disk st) (join (pkgDir cfg) m) \<and> existsAt (disk st) (join (pkgDir cfg) mo)
        \<and> existsAt (disk st) (join (pkgDir cfg) t) \<and> exports pkg = None"
    then have "\<forall>q \<in> set [m, mo, t]. access (disk st) (join (pkgDir cfg) q) = None"
      by (simp add: existsAt_access)
    with a show "fst (validatePackageJson pf cfg pkg st) = Some (Uncaught TypeError)"
      by (simp add: validatePackageJson_exports_absent)
  qed
  have c3: "fst (validatePackageJson pf cfg pkg st) = None \<longleftrightarrow>
        (\<exists>m mo t exps. main pkg = Some m \<and> module pkg = Some mo \<and> types pkg = Some t
           \<and> exports pkg = Some exps
           \<and> (\<forall>q \<in> set ([m, mo, t] @ concat (map exportTask exps)).
                 existsAt (disk st) (join (pkgDir cfg) q)))"
    unfolding validatePackageJson_entryPoints by (rule entryPointsExist_iff)
  show ?thesis by (intro conjI c1 c2 c3)
qed

text \<open>
  C1 as amended, at the small build: with \<^verbatim>\<open>main\<close> taken out of the manifest, with
  \<^verbatim>\<open>exports\<close> taken out, and with the manifest as it is.
\<close>

theorem C1_witness:
  "fst (validatePackageJson (platformWith demoManifest) demoConfig (demoManifest\<lparr>main := None\<rparr>)
          (startOn demoEntries))
     = Some (Exit1 [Str (''Error validating path '' @ [CHR 0x22] @ ''undefined'' @ [CHR 0x22]
                         @ '' inside of '' @ [CHR 0x22] @ ''/pkg/package.json'' @ [CHR 0x22]),
                    Err TypeError])
   \<and> fst (validatePackageJson (platformWith demoManifest) demoConfig
          (demoManifest\<lparr>exports := None\<rparr>) (startOn demoEntries)) = Some (Uncaught TypeError)
   \<and> fst (validatePackageJson (platformWith demoManifest) demoConfig demoManifest
          (startOn demoEntries)) = None"
proof -
  have j: "join (pkgDir demoConfig) ''package.json'' = ''/pkg/package.json''" by code_simp
  have a: "main (demoManifest\<lparr>main := None\<rparr>) = None" by simp
  have b: "main (demoManifest\<lparr>exports := None\<rparr>) = Some ''./core.cjs''
      \<and> module (demoManifest\<lparr>exports := None\<rparr>) = Some ''./core.mjs''
      \<and> types (demoManifest\<lparr>exports := None\<rparr>) = Some ''./core.d.ts''
      \<and> existsAt (disk (startOn demoEntries)) (join (pkgDir demoConfig) ''./core.cjs'')
      \<and> existsAt (disk (startOn demoEntries)) (join (pkgDir demoConfig) ''./core.mjs'')
      \<and> existsAt (disk (startOn demoEntries)) (join (pkgDir demoConfig) ''./core.d.ts'')
      \<and> exports (demoManifest\<lparr>exports := None\<rparr>) = None"
    by code_simp
  have c: "main demoManifest = Some ''./core.cjs'' \<and> module demoManifest = Some ''./core.mjs''
      \<and> types demoManifest = Some ''./core.d.ts''
      \<and> exports demoManifest = Some [(''.'', Conditional ''./core.mjs'' ''./core.cjs''),
                                     (''./package.json'', Path ''./package.json'')]
      \<and> (\<forall>q \<in> set ([''./core.cjs'', ''./core.mjs'', ''./core.d.ts'']
              @ concat (map exportTask [(''.'', Conditional ''./core.mjs'' ''./core.cjs''),
                                        (''./package.json'', Path ''./package.json'')])).
            existsAt (disk (startOn demoEntries)) (join (pkgDir demoConfig) q))"
    by code_simp
  note T1 = C1_absent_field_ends_run [of "demoManifest\<lparr>main := None\<rparr>"
              "platformWith demoManifest" demoConfig "startOn demoEntries"]
  note T2 = C1_absent_field_ends_run [of "demoManifest\<lparr>exports := None\<rparr>"
              "platformWith demoManifest" demoConfig "startOn demoEntries"]
  note T3 = C1_absent_field_ends_run [of demoManifest
              "platformWith demoManifest" demoConfig "startOn demoEntries"]
  have w1: "fst (validatePackageJson (platformWith demoManifest) demoConfig
          (demoManifest\<lparr>main := None\<rparr>) (startOn demoEntries))
     = Some (Exit1 [Str (''Error validating path '' @ [CHR 0x22] @ ''undefined'' @ [CHR 0x22]
                         @ '' inside of '' @ [CHR 0x22] @ ''/pkg/package.json'' @ [CHR 0x22]),
                    Err TypeError])"
    using conjunct1 [OF T1, THEN mp, OF disjI1, OF a] unfolding j .
  have w2: "fst (validatePackageJson (platformWith demoManifest) demoConfig
          (demoManifest\<lparr>exports := None\<rparr>) (startOn demoEntries)) = Some (Uncaught TypeError)"
    by (rule conjunct1 [OF conjunct2 [OF T2], THEN spec, THEN spec, THEN spec, THEN mp, OF b])
  have w3: "fst (validatePackageJson (platformWith demoManifest) demoConfig demoManifest
          (startOn demoEntries)) = None"
    by (rule iffD2 [OF conjunct2 [OF conjunct2 [OF T3]]]) (intro exI, rule c)
  show ?thesis by (intro conjI w1 w2 w3)
qed

text \<open>
  C1 as stated fails. The small build validates; with \<^verbatim>\<open>main\<close> taken out of its manifest
  the run exits with code 1 at the resolver, and with \<^verbatim>\<open>exports\<close> taken out a
  \<^verbatim>\<open>TypeError\<close> leaves \<open>validateBuild\<close>.
\<close>

theorem C1_counterexample:
  "fst (validateBuild (platformWith demoManifest) demoConfig (startOn demoEntries)) = Validated
   \<and> fst (validateBuild (platformWith (demoManifest\<lparr>main := None\<rparr>)) demoConfig
          (startOn demoEntries))
     = Exit1 [Str (''Error validating path '' @ [CHR 0x22] @ ''undefined'' @ [CHR 0x22]
                   @ '' inside of '' @ [CHR 0x22] @ ''/pkg/package.json'' @ [CHR 0x22]),
              Err TypeError]
   \<and> fst (validateBuild (platformWith (demoManifest\<lparr>exports := None\<rparr>)) demoConfig
          (startOn demoEntries)) = Uncaught TypeError"
  by code_simp

text \<open>
  C2. The check of a \<^verbatim>\<open>.ts\<close> file never asks the disk for the file. Here the manifest of
  the small build declares one more file, \<^verbatim>\<open>jsx-runtime.d.ts\<close>, which the build has
  omitted; the type checker reports no semantic and no syntactic diagnostic; the run
  validates, and the only call made for the file is the type check.
\<close>

theorem C2_omitted_declaration_file_validates:
  "''jsx-runtime.d.ts'' \<in> set (files (demoManifest\<lparr>files := files demoManifest @ [''jsx-runtime.d.ts'']\<rparr>))
   \<and> \<not> existsAt (disk (startOn demoEntries)) ''/pkg/jsx-runtime.d.ts''
   \<and> fst (validateBuild
        (platformWith (demoManifest\<lparr>files := files demoManifest @ [''jsx-runtime.d.ts'']\<rparr>))
        demoConfig (startOn demoEntries)) = Validated
   \<and> filter (\<lambda>e. phase e = 1) (trace (snd (validateBuild
        (platformWith (demoManifest\<lparr>files := files demoManifest @ [''jsx-runtime.d.ts'']\<rparr>))
        demoConfig (startOn demoEntries))))
      = [ReadFileSync ''/pkg/package.json'', Require ''/pkg/core.cjs'',
         Import ''file:///pkg/core.mjs'', TypeCheck ''/pkg/core.d.ts'',
         ReadFileSync ''/pkg/README.md'', TypeCheck ''/pkg/jsx-runtime.d.ts'']"
  by code_simp




text \<open>
  C4. For a declared file with the extension \<^verbatim>\<open>.mjs\<close>. Under \<^verbatim>\<open>esmNode\<close> its check is the
  dynamic import of its file URL: the module's code runs (the disk becomes the one the
  module leaves), and what the import throws ends the run with the file's error report.
  Without \<^verbatim>\<open>esmNode\<close> its check is \<open>validateTypeScriptFile\<close>, the check of a \<^verbatim>\<open>.ts\<close>
  file: the only call is the type check and the disk is as before.
\<close>

theorem C4_mjs_import_or_typecheck:
  assumes "extname filePath = ''.mjs''"
  shows "(esmNode cfg \<longrightarrow>
            validateFile pf cfg filePath st = dynamicImport pf (pathToFileURL_href pf filePath) st
            \<and> disk (snd (validateFile pf cfg filePath st))
                = snd (importModule pf (pathToFileURL_href pf filePath) (disk st))
            \<and> (\<forall>e. fst (importModule pf (pathToFileURL_href pf filePath) (disk st)) = Some e \<longrightarrow>
                  fst (validateFiles pf cfg (filePath # rest) st)
                    = Some (Exit1 (fileError filePath e))))
       \<and> (\<not> esmNode cfg \<longrightarrow>
            validateFile pf cfg filePath st = validateTypeScriptFile pf cfg filePath st
            \<and> snd (validateFile pf cfg filePath st) = log (TypeCheck filePath) st
            \<and> (\<forall>tsFilePath. extname tsFilePath = ''.ts'' \<longrightarrow>
                  validateFile pf cfg tsFilePath st = validateTypeScriptFile pf cfg tsFilePath st))"
proof (intro conjI impI allI)
  assume esm: "esmNode cfg"
  show v: "validateFile pf cfg filePath st = dynamicImport pf (pathToFileURL_href pf filePath) st"
    using assms esm by (rule validateFile_mjs_esmNode)
  show "disk (snd (validateFile pf cfg filePath st))
          = snd (importModule pf (pathToFileURL_href pf filePath) (disk st))"
    unfolding v by (simp add: dynamicImport_state disk_log)
  fix e
  assume "fst (importModule pf (pathToFileURL_href pf filePath) (disk st)) = Some e"
  then have "fst (validateFile pf cfg filePath st) = Some e"
    unfolding v by (simp add: dynamicImport_thrown)
  then have "validateFile pf cfg filePath st = (Some e, snd (validateFile pf cfg filePath st))"
    by (cases "validateFile pf cfg filePath st") simp
  then show "fst (validateFiles pf cfg (filePath # rest) st) = Some (Exit1 (fileError filePath e))"
    by (simp add: validateFiles_Cons_Some)
next
  assume no: "\<not> esmNode cfg"
  show v: "validateFile pf cfg filePath st = validateTypeScriptFile pf cfg filePath st"
    using assms no by (rule validateFile_mjs_fallthrough)
  show "snd (validateFile pf cfg filePath st) = log (TypeCheck filePath) st"
    unfolding v by (rule validateTypeScriptFile_state)
  fix tsFilePath
  assume "extname tsFilePath = ''.ts''"
  then show "validateFile pf cfg tsFilePath st = validateTypeScriptFile pf cfg tsFilePath st"
    by (rule validateFile_ts)
qed

text \<open>
  C4 at \<^verbatim>\<open>/pkg/core.mjs\<close> of the small build: imported under \<^verbatim>\<open>esmNode\<close>, type-checked
  without it.
\<close>

theorem C4_witness:
  "validateFile (platformWith demoManifest) demoConfig ''/pkg/core.mjs'' (startOn demoEntries)
     = (None, log (Import ''file:///pkg/core.mjs'') (startOn demoEntries))
   \<and> validateFile (platformWith demoManifest) (demoConfig\<lparr>esmNode := False\<rparr>) ''/pkg/core.mjs''
        (startOn demoEntries)
     = (None, log (TypeCheck ''/pkg/core.mjs'') (startOn demoEntries))"
proof -
  have e: "extname ''/pkg/core.mjs'' = ''.mjs''" by code_simp
  have a: "esmNode demoConfig" by (simp add: demoConfig_def)
  have b: "\<not> esmNode (demoConfig\<lparr>esmNode := False\<rparr>)" by simp
  have i: "dynamicImport (platformWith demoManifest)
             (pathToFileURL_href (platformWith demoManifest) ''/pkg/core.mjs'') (startOn demoEntries)
      = (None, log (Import ''file:///pkg/core.mjs'') (startOn demoEntries))"
    by code_simp
  have t: "fst (validateTypeScriptFile (platformWith demoManifest) (demoConfig\<lparr>esmNode := False\<rparr>)
             ''/pkg/core.mjs'' (startOn demoEntries)) = None"
    by (simp add: validateTypeScriptFile_def platformWith_def Let_def)
  show ?thesis
    using C4_mjs_import_or_typecheck [OF e, of demoConfig "platformWith demoManifest"
              "startOn demoEntries" "[]"]
      C4_mjs_import_or_typecheck [OF e, of "demoConfig\<lparr>esmNode := False\<rparr>"
              "platformWith demoManifest" "startOn demoEntries" "[]"]
      a b i t
    by (metis prod.collapse)
qed

text \<open>
  C5. Let the manifest load, the declared files pass, and \<^verbatim>\<open>exports\<close> have an entry that is
  a record with \<^verbatim>\<open>import\<close> and \<^verbatim>\<open>require\<close>. If either of the two paths does not exist
  under \<^verbatim>\<open>pkgDir\<close>, the run ends with exit code 1, having printed
  \<^verbatim>\<open>Error validating path "<p>" inside of "<pkgDir>/package.json"\<close> and the error of the
  check for a path \<open>p\<close> the resolver checks and \<^verbatim>\<open>access\<close> rejects: both are checked. If
  the \<^verbatim>\<open>import\<close> path does not exist and every other path the resolver checks does, the
  path printed is the \<^verbatim>\<open>import\<close> path, whatever the order in which the requests
  complete.
\<close>

theorem C5_conditional_export_both_checked:
  assumes "readAt (disk st) (join (pkgDir cfg) ''package.json'') = Inr content"
    and "JSON_parse pf content = Inr pkg"
    and "validateFiles pf cfg (map (join (pkgDir cfg)) (files pkg))
           (log (ReadFile (join (pkgDir cfg) ''package.json'')) st) = (None, st2)"
    and "main pkg = Some m" and "module pkg = Some mo" and "types pkg = Some t"
    and "exports pkg = Some exps"
    and "(exportKey, Conditional imp req) \<in> set exps"
  shows "(\<not> existsAt (disk st2) (join (pkgDir cfg) imp)
            \<or> \<not> existsAt (disk st2) (join (pkgDir cfg) req) \<longrightarrow>
          (\<exists>p e. p \<in> set ([m, mo, t] @ concat (map exportTask exps))
             \<and> access (disk st2) (join (pkgDir cfg) p) = Some e
             \<and> fst (validateBuild pf cfg st)
                 = Exit1 [Str (''Error validating path '' @ [CHR 0x22] @ p @ [CHR 0x22]
                               @ '' inside of '' @ [CHR 0x22]
                               @ join (pkgDir cfg) ''package.json'' @ [CHR 0x22]),
                          Err e]))
       \<and> (\<not> existsAt (disk st2) (join (pkgDir cfg) imp)
            \<and> (\<forall>q \<in> set ([m, mo, t] @ concat (map exportTask exps)).
                  q \<noteq> imp \<longrightarrow> existsAt (disk st2) (join (pkgDir cfg) q)) \<longrightarrow>
          (\<exists>e. access (disk st2) (join (pkgDir cfg) imp) = Some e
             \<and> fst (validateBuild pf cfg st)
                 = Exit1 [Str (''Error validating path '' @ [CHR 0x22] @ imp @ [CHR 0x22]
                               @ '' inside of '' @ [CHR 0x22]
                               @ join (pkgDir cfg) ''package.json'' @ [CHR 0x22]),
                          Err e]))"
proof -
  define paths where "paths = [m, mo, t] @ concat (map exportTask exps)"
  define msg where "msg = (\<lambda>p. Str (''Error validating path '' @ [CHR 0x22] @ p @ [CHR 0x22]
                               @ '' inside of '' @ [CHR 0x22]
                               @ join (pkgDir cfg) ''package.json'' @ [CHR 0x22]))"
  have shape: "\<And>p e. pathError cfg (Some p) e = [msg p, Err e]"
    by (simp add: pathError_text msg_def)
  have mem: "imp \<in> set paths" "req \<in> set paths"
    unfolding paths_def
    using assms(8) by (auto intro!: bexI [of _ "(exportKey, Conditional imp req)"])
  have fulfilled: "fst (validatePackageJson pf cfg pkg st2) = None
            \<longleftrightarrow> (\<forall>q \<in> set paths. access (disk st2) (join (pkgDir cfg) q) = None)"
    unfolding paths_def by (rule validatePackageJson_result(1) [OF assms(4-7)])
  have rejected: "\<And>out. fst (validatePackageJson pf cfg pkg st2) = Some out \<Longrightarrow>
           failure cfg (disk st2) paths out"
    unfolding paths_def by (rule validatePackageJson_result(2) [OF assms(4-7)])
  have run: "\<And>out. fst (validatePackageJson pf cfg pkg st2) = Some out \<Longrightarrow>
           fst (validateBuild pf cfg st) = out"
    by (rule validateBuild_resolver_failed [OF assms(1-3)])
  have c1: "\<not> existsAt (disk st2) (join (pkgDir cfg) imp)
            \<or> \<not> existsAt (disk st2) (join (pkgDir cfg) req) \<longrightarrow>
          (\<exists>p e. p \<in> set paths \<and> access (disk st2) (join (pkgDir cfg) p) = Some e
             \<and> fst (validateBuild pf cfg st) = Exit1 [msg p, Err e])"
  proof
    assume "\<not> existsAt (disk st2) (join (pkgDir cfg) imp)
            \<or> \<not> existsAt (disk st2) (join (pkgDir cfg) req)"
    then have "\<not> (\<forall>q \<in> set paths. access (disk st2) (join (pkgDir cfg) q) = None)"
      using mem unfolding existsAt_access by auto
    then have "fst (validatePackageJson pf cfg pkg st2) \<noteq> None" using fulfilled by simp
    then obtain out where out: "fst (validatePackageJson pf cfg pkg st2) = Some out" by auto
    from rejected [OF out] obtain p e where p: "p \<in> set paths"
      "access (disk st2) (join (pkgDir cfg) p) = Some e" "out = Exit1 (pathError cfg (Some p) e)"
      unfolding failure_def by auto
    have "fst (validateBuild pf cfg st) = Exit1 [msg p, Err e]"
      using run [OF out] p(3) by (simp only: shape)
    with p(1,2) show "\<exists>p e. p \<in> set paths \<and> access (disk st2) (join (pkgDir cfg) p) = Some e
             \<and> fst (validateBuild pf cfg st) = Exit1 [msg p, Err e]"
      by (intro exI conjI)
  qed
  have c2: "\<not> existsAt (disk st2) (join (pkgDir cfg) imp)
            \<and> (\<forall>q \<in> set paths. q \<noteq> imp \<longrightarrow> existsAt (disk st2) (join (pkgDir cfg) q)) \<longrightarrow>
          (\<exists>e. access (disk st2) (join (pkgDir cfg) imp) = Some e
             \<and> fst (validateBuild pf cfg st) = Exit1 [msg imp, Err e])"
  proof
    assume a: "\<not> existsAt (disk st2) (join (pkgDir cfg) imp)
            \<and> (\<forall>q \<in> set paths. q \<noteq> imp \<longrightarrow> existsAt (disk st2) (join (pkgDir cfg) q))"
    then have "\<not> (\<forall>q \<in> set paths. access (disk st2) (join (pkgDir cfg) q) = None)"
      using mem(1) unfolding existsAt_access by auto
    then have "fst (validatePackageJson pf cfg pkg st2) \<noteq> None" using fulfilled by simp
    then obtain out where out: "fst (validatePackageJson pf cfg pkg st2) = Some out" by auto
    from rejected [OF out] obtain p e where p: "p \<in> set paths"
      "access (disk st2) (join (pkgDir cfg) p) = Some e" "out = Exit1 (pathError cfg (Some p) e)"
      unfolding failure_def by auto
    have pi: "p = imp"
    proof (rule ccontr)
      assume "p \<noteq> imp"
      with a p(1) have "existsAt (disk st2) (join (pkgDir cfg) p)" by simp
      with p(2) show False by (simp add: existsAt_access)
    qed
    have "fst (validateBuild pf cfg st) = Exit1 [msg imp, Err e]"
      using run [OF out] p(3) pi by (simp only: shape)
    with p(2) pi
    show "\<exists>e. access (disk st2) (join (pkgDir cfg) imp) = Some e
             \<and> fst (validateBuild pf cfg st) = Exit1 [msg imp, Err e]"
      by (intro exI [of _ e] conjI) simp_all
  qed
  show ?thesis using c1 c2 unfolding paths_def msg_def by (intro conjI)
qed

text \<open>
  C5 at the example of the spec: \<^verbatim>\<open>exports\<close> maps \<^verbatim>\<open>./sub\<close> to \<^verbatim>\<open>./sub.mjs\<close> and
  \<^verbatim>\<open>./sub.cjs\<close>, and only \<^verbatim>\<open>sub.cjs\<close> is on disk (and declared). The run prints
  \<^verbatim>\<open>Error validating path "./sub.mjs" inside of "/pkg/package.json"\<close> and the error
  \<^verbatim>\<open>ENOENT\<close>, and exits with code 1.
\<close>

theorem C5_witness:
  "fst (validateBuild (platformWith subManifest) demoConfig (startOn subEntries))
     = Exit1 [Str (''Error validating path '' @ [CHR 0x22] @ ''./sub.mjs'' @ [CHR 0x22]
                   @ '' inside of '' @ [CHR 0x22] @ ''/pkg/package.json'' @ [CHR 0x22]),
              Err ENOENT]"
proof -
  define st2 where "st2 = snd (validateFiles (platformWith subManifest) demoConfig
           (map (join (pkgDir demoConfig)) (files subManifest))
           (log (ReadFile (join (pkgDir demoConfig) ''package.json'')) (startOn subEntries)))"
  have j: "join (pkgDir demoConfig) ''package.json'' = ''/pkg/package.json''" by code_simp
  have a: "readAt (disk (startOn subEntries)) (join (pkgDir demoConfig) ''package.json'')
      = Inr manifestText"
    by code_simp
  have b: "JSON_parse (platformWith subManifest) manifestText = Inr subManifest"
    by (simp add: platformWith_def)
  have "fst (validateFiles (platformWith subManifest) demoConfig
           (map (join (pkgDir demoConfig)) (files subManifest))
           (log (ReadFile (join (pkgDir demoConfig) ''package.json'')) (startOn subEntries)))
        = None"
    by code_simp
  then have c: "validateFiles (platformWith subManifest) demoConfig
           (map (join (pkgDir demoConfig)) (files subManifest))
           (log (ReadFile (join (pkgDir demoConfig) ''package.json'')) (startOn subEntries))
        = (None, st2)"
    unfolding st2_def by (metis prod.collapse)
  have d: "disk st2 = disk (startOn subEntries)"
    unfolding st2_def by (simp add: validateFiles_disk platformWith_loaders disk_log)
  have f: "main subManifest = Some ''./core.cjs''" "module subManifest = Some ''./core.mjs''"
    "types subManifest = Some ''./core.d.ts''"
    "exports subManifest = Some [(''./sub'', Conditional ''./sub.mjs'' ''./sub.cjs'')]"
    by (simp_all add: subManifest_def demoManifest_def)
  have g: "(''./sub'', Conditional ''./sub.mjs'' ''./sub.cjs'')
      \<in> set [(''./sub'', Conditional ''./sub.mjs'' ''./sub.cjs'')]"
    by simp
  have h: "\<not> existsAt (disk st2) (join (pkgDir demoConfig) ''./sub.mjs'')
      \<and> (\<forall>q \<in> set ([''./core.cjs'', ''./core.mjs'', ''./core.d.ts'']
                @ concat (map exportTask [(''./sub'', Conditional ''./sub.mjs'' ''./sub.cjs'')])).
            q \<noteq> ''./sub.mjs'' \<longrightarrow> existsAt (disk st2) (join (pkgDir demoConfig) q))"
    unfolding d by code_simp
  have e: "access (disk st2) (join (pkgDir demoConfig) ''./sub.mjs'') = Some ENOENT"
    unfolding d by code_simp
  have "\<exists>e. access (disk st2) (join (pkgDir demoConfig) ''./sub.mjs'') = Some e
      \<and> fst (validateBuild (platformWith subManifest) demoConfig (startOn subEntries))
          = Exit1 [Str (''Error validating path '' @ [CHR 0x22] @ ''./sub.mjs'' @ [CHR 0x22]
                        @ '' inside of '' @ [CHR 0x22]
                        @ join (pkgDir demoConfig) ''package.json'' @ [CHR 0x22]),
                   Err e]"
    by (rule conjunct2 [OF C5_conditional_export_both_checked [OF a b c f g], THEN mp, OF h])
  then show ?thesis using e unfolding j by auto
qed

text \<open>
  C6. Let the manifest load, the declared files and the entry points pass, and the scan of
  \<^verbatim>\<open>pkgDir\<close> return. The scan has collected ActualFiles, the regular files under
  \<^verbatim>\<open>pkgDir\<close>; the unexpected files are ActualFiles without ExpectedFiles, as sets. If there
  is none the run validates (exit code 0). Otherwise the run prints one message, which
  has every unexpected path in it, and exits with code 1.
\<close>

theorem C6_unexpected_files_in_one_report:
  assumes "readAt (disk st) (join (pkgDir cfg) ''package.json'') = Inr content"
    and "JSON_parse pf content = Inr pkg"
    and "validateFiles pf cfg (map (join (pkgDir cfg)) (files pkg))
           (log (ReadFile (join (pkgDir cfg) ''package.json'')) st) = (None, st2)"
    and "validatePackageJson pf cfg pkg st2 = (None, st3)"
    and "resolve (disk st3) (pkgDir cfg) = Inr n"
    and "getFiles (pkgDir cfg) n [] st3 = (Inr allFiles, st4)"
  shows "let expectedFiles = map (join (pkgDir cfg)) (files pkg);
             unexpectedFiles = filter (\<lambda>f. f \<notin> set expectedFiles) allFiles
         in (\<exists>es. n = Dir es \<and> allFiles = actualFiles (pkgDir cfg) es)
          \<and> set unexpectedFiles = set allFiles - set expectedFiles
          \<and> validateBuild pf cfg st
              = (if unexpectedFiles = [] then Validated
                 else Exit1 [Str (unexpectedMessage pf unexpectedFiles)], st4)
          \<and> list_all (\<lambda>f. sublist f (unexpectedMessage pf unexpectedFiles)) unexpectedFiles"
proof -
  define expectedFiles where "expectedFiles = map (join (pkgDir cfg)) (files pkg)"
  define unexpectedFiles where
    "unexpectedFiles = filter (\<lambda>f. f \<notin> set expectedFiles) allFiles"
  have a: "\<exists>es. n = Dir es \<and> allFiles = actualFiles (pkgDir cfg) es"
    using getFiles_actualFiles(1) [OF assms(6)] by simp
  have b: "set unexpectedFiles = set allFiles - set expectedFiles"
    unfolding unexpectedFiles_def by auto
  have "validateBuild pf cfg st = scanTree pf cfg expectedFiles st3"
    unfolding validateBuild_after_validator [OF assms(1-3)] assms(4) expectedFiles_def by simp
  then have c: "validateBuild pf cfg st
              = (if unexpectedFiles = [] then Validated
                 else Exit1 [Str (unexpectedMessage pf unexpectedFiles)], st4)"
    unfolding scanTree_scanned [OF assms(5,6)] unexpectedFiles_def .
  have d: "list_all (\<lambda>f. sublist f (unexpectedMessage pf unexpectedFiles)) unexpectedFiles"
    unfolding list_all_iff using sublist_unexpectedMessage by blast
  show ?thesis
    using a b c d unfolding Let_def expectedFiles_def unexpectedFiles_def by (intro conjI)
qed

text \<open>
  C6 at the small build with two files left over, \<^verbatim>\<open>extra.txt\<close> and \<^verbatim>\<open>tmp/x.js\<close>: one
  message with both paths.
\<close>

theorem C6_witness:
  "validateBuild (platformWith demoManifest) demoConfig (startOn leftoverEntries)
     = (Exit1 [Str (unexpectedMessage (platformWith demoManifest)
                      [''/pkg/extra.txt'', ''/pkg/tmp/x.js''])],
        snd (validateBuild (platformWith demoManifest) demoConfig (startOn leftoverEntries)))"
proof -
  define P where "P = platformWith demoManifest"
  define st1 where "st1 = log (ReadFile (join (pkgDir demoConfig) ''package.json''))
     (startOn leftoverEntries)"
  define st2 where "st2 = snd (validateFiles P demoConfig
           (map (join (pkgDir demoConfig)) (files demoManifest)) st1)"
  define st3 where "st3 = snd (validatePackageJson P demoConfig demoManifest st2)"
  define st4 where "st4 = snd (getFiles (pkgDir demoConfig) (Dir leftoverEntries) [] st3)"
  have a: "readAt (disk (startOn leftoverEntries)) (join (pkgDir demoConfig) ''package.json'')
      = Inr manifestText"
    by code_simp
  have b: "JSON_parse P manifestText = Inr demoManifest"
    by (simp add: platformWith_def P_def)
  have "fst (validateFiles P demoConfig
           (map (join (pkgDir demoConfig)) (files demoManifest)) st1) = None"
    unfolding P_def st1_def by code_simp
  then have c: "validateFiles P demoConfig
           (map (join (pkgDir demoConfig)) (files demoManifest))
           (log (ReadFile (join (pkgDir demoConfig) ''package.json'')) (startOn leftoverEntries))
         = (None, st2)"
    unfolding st2_def st1_def by (metis prod.collapse)
  have "fst (validatePackageJson P demoConfig demoManifest st2) = None"
    unfolding P_def st2_def st1_def by code_simp
  then have d: "validatePackageJson P demoConfig demoManifest st2 = (None, st3)"
    unfolding st3_def by (metis prod.collapse)
  have e: "resolve (disk st3) (pkgDir demoConfig) = Inr (Dir leftoverEntries)"
    unfolding P_def st3_def st2_def st1_def by code_simp
  have "fst (getFiles (pkgDir demoConfig) (Dir leftoverEntries) [] st3)
      = Inr [''/pkg/package.json'', ''/pkg/core.cjs'', ''/pkg/core.mjs'', ''/pkg/core.d.ts'',
             ''/pkg/README.md'', ''/pkg/extra.txt'', ''/pkg/tmp/x.js'']"
    unfolding P_def st3_def st2_def st1_def by code_simp
  then have f: "getFiles (pkgDir demoConfig) (Dir leftoverEntries) [] st3
      = (Inr [''/pkg/package.json'', ''/pkg/core.cjs'', ''/pkg/core.mjs'', ''/pkg/core.d.ts'',
             ''/pkg/README.md'', ''/pkg/extra.txt'', ''/pkg/tmp/x.js''], st4)"
    unfolding st4_def by (metis prod.collapse)
  have g: "filter (\<lambda>f. f \<notin> set (map (join (pkgDir demoConfig)) (files demoManifest)))
        [''/pkg/package.json'', ''/pkg/core.cjs'', ''/pkg/core.mjs'', ''/pkg/core.d.ts'',
             ''/pkg/README.md'', ''/pkg/extra.txt'', ''/pkg/tmp/x.js'']
      = [''/pkg/extra.txt'', ''/pkg/tmp/x.js'']"
    by code_simp
  show ?thesis
    using C6_unexpected_files_in_one_report [OF a b c d e f]
    unfolding Let_def g P_def by simp
qed

text \<open>
  C7. For a declared file whose extension is none of \<^verbatim>\<open>.cjs\<close>, \<^verbatim>\<open>.mjs\<close>, \<^verbatim>\<open>.ts\<close>,
  \<^verbatim>\<open>.json\<close>, \<^verbatim>\<open>.map\<close> and whose text can be read: the check throws the error
  \<^verbatim>\<open>empty file\<close> exactly when every code unit of the text is white space (the empty text
  included), and then the loop prints the path and that error and exits; with any other
  code unit in the text the check passes and the loop goes on to the next file.
\<close>

theorem C7_empty_file_check:
  assumes "extname filePath \<notin> {''.cjs'', ''.mjs'', ''.ts'', ''.json'', ''.map''}"
    and "readAt (disk st) filePath = Inr content"
  shows "fst (validateFile pf cfg filePath st)
           = (if (\<forall>c \<in> set content. isWhiteSpace c) then Some (Error ''empty file'') else None)
       \<and> validateFiles pf cfg (filePath # rest) st
           = (if (\<forall>c \<in> set content. isWhiteSpace c)
              then (Some (Exit1 (fileError filePath (Error ''empty file''))),
                    log (ReadFileSync filePath) st)
              else validateFiles pf cfg rest (log (ReadFileSync filePath) st))"
proof -
  have ext: "extname filePath \<noteq> ''.cjs''" "extname filePath \<noteq> ''.mjs''"
    "extname filePath \<noteq> ''.ts''" "extname filePath \<noteq> ''.json''" "extname filePath \<noteq> ''.map''"
    using assms(1) by simp_all
  have v: "validateFile pf cfg filePath st =
     (if (\<forall>c \<in> set content. isWhiteSpace c) then Some (Error ''empty file'') else None,
      log (ReadFileSync filePath) st)"
    unfolding validateFile_read_default [OF ext] assms(2) by (simp add: trim_empty)
  show ?thesis
  proof (cases "\<forall>c \<in> set content. isWhiteSpace c")
    case True
    then have "validateFile pf cfg filePath st
        = (Some (Error ''empty file''), log (ReadFileSync filePath) st)"
      using v by simp
    then show ?thesis using True by (simp add: validateFiles_Cons_Some)
  next
    case False
    then have "validateFile pf cfg filePath st = (None, log (ReadFileSync filePath) st)"
      using v by simp
    then show ?thesis using False by (simp add: validateFiles_Cons_None)
  qed
qed

text \<open>
  C7 at the file \<^verbatim>\<open>notes.xyz\<close> of the spec: three spaces fail, the text \<^verbatim>\<open>ok\<close> passes.
\<close>

theorem C7_witness:
  "fst (validateFile (platformWith demoManifest) demoConfig ''/pkg/notes.xyz''
          (startOn [(''notes.xyz'', File (text_of ''   ''))])) = Some (Error ''empty file'')
   \<and> fst (validateFile (platformWith demoManifest) demoConfig ''/pkg/notes.xyz''
          (startOn [(''notes.xyz'', File (text_of ''ok''))])) = None"
proof -
  have e: "extname ''/pkg/notes.xyz'' \<notin> {''.cjs'', ''.mjs'', ''.ts'', ''.json'', ''.map''}"
    by code_simp
  have a: "readAt (disk (startOn [(''notes.xyz'', File (text_of ''   ''))])) ''/pkg/notes.xyz''
      = Inr (text_of ''   '')"
    by code_simp
  have b: "readAt (disk (startOn [(''notes.xyz'', File (text_of ''ok''))])) ''/pkg/notes.xyz''
      = Inr (text_of ''ok'')"
    by code_simp
  have wa: "\<forall>c \<in> set (text_of ''   ''). isWhiteSpace c"
    by (simp add: text_of_def isWhiteSpace_def)
  have wb: "\<not> (\<forall>c \<in> set (text_of ''ok''). isWhiteSpace c)"
    by (simp add: text_of_def isWhiteSpace_def)
  show ?thesis
    using C7_empty_file_check [OF e a, of "platformWith demoManifest" demoConfig "[]"]
      C7_empty_file_check [OF e b, of "platformWith demoManifest" demoConfig "[]"] wa wb
    by simp
qed

text \<open>
  C8. If \<^verbatim>\<open><pkgDir>/package.json\<close> cannot be read (it is missing, for one) or is not
  valid JSON, the error of the read or of \<^verbatim>\<open>JSON.parse\<close> leaves \<open>validateBuild\<close> as it is,
  uncaught, and the run has made no other call than the read of the manifest: no later
  check runs.
\<close>

theorem C8_manifest_error_uncaught:
  "(readAt (disk st) (join (pkgDir cfg) ''package.json'') = Inl e \<longrightarrow>
      validateBuild pf cfg st
        = (Uncaught e, log (ReadFile (join (pkgDir cfg) ''package.json'')) st))
   \<and> (readAt (disk st) (join (pkgDir cfg) ''package.json'') = Inr content
        \<and> JSON_parse pf content = Inl e' \<longrightarrow>
      validateBuild pf cfg st
        = (Uncaught e', log (ReadFile (join (pkgDir cfg) ''package.json'')) st))
   \<and> (\<not> existsAt (disk st) (join (pkgDir cfg) ''package.json'') \<longrightarrow>
        (\<exists>e. fst (validateBuild pf cfg st) = Uncaught e))"
proof (intro conjI impI)
  assume "readAt (disk st) (join (pkgDir cfg) ''package.json'') = Inl e"
  then show "validateBuild pf cfg st
        = (Uncaught e, log (ReadFile (join (pkgDir cfg) ''package.json'')) st)"
    by (rule validateBuild_unreadable)
next
  assume "readAt (disk st) (join (pkgDir cfg) ''package.json'') = Inr content
        \<and> JSON_parse pf content = Inl e'"
  then show "validateBuild pf cfg st
        = (Uncaught e', log (ReadFile (join (pkgDir cfg) ''package.json'')) st)"
    by (simp add: validateBuild_unparsable)
next
  assume "\<not> existsAt (disk st) (join (pkgDir cfg) ''package.json'')"
  then obtain e where "readAt (disk st) (join (pkgDir cfg) ''package.json'') = Inl e"
    using readAt_missing by blast
  then have "fst (validateBuild pf cfg st) = Uncaught e"
    by (simp add: validateBuild_unreadable)
  then show "\<exists>e. fst (validateBuild pf cfg st) = Uncaught e" ..
qed

text \<open>
  C8 at a package directory without a manifest, and at one whose manifest is the text
  \<^verbatim>\<open>{\<close>.
\<close>

theorem C8_witness:
  "validateBuild (platformWith demoManifest) demoConfig (startOn [])
     = (Uncaught ENOENT, log (ReadFile ''/pkg/package.json'') (startOn []))
   \<and> validateBuild (platformWith demoManifest) demoConfig
        (startOn [(''package.json'', File (text_of ''{''))])
     = (Uncaught SyntaxError,
        log (ReadFile ''/pkg/package.json'') (startOn [(''package.json'', File (text_of ''{''))]))"
proof -
  have j: "join (pkgDir demoConfig) ''package.json'' = ''/pkg/package.json''"
    by code_simp
  have a: "readAt (disk (startOn [])) (join (pkgDir demoConfig) ''package.json'') = Inl ENOENT"
    by code_simp
  have b: "readAt (disk (startOn [(''package.json'', File (text_of ''{''))]))
             (join (pkgDir demoConfig) ''package.json'') = Inr (text_of ''{'')
           \<and> JSON_parse (platformWith demoManifest) (text_of ''{'') = Inl SyntaxError"
    by code_simp
  show ?thesis
    using C8_manifest_error_uncaught [of "startOn []" demoConfig ENOENT
            "platformWith demoManifest"]
      C8_manifest_error_uncaught [of "startOn [(''package.json'', File (text_of ''{''))]"
            demoConfig _ "platformWith demoManifest" "text_of ''{''" SyntaxError]
      a b unfolding j by blast
qed



text \<open>
  C10, as amended. If a declared path whose extension is none of \<^verbatim>\<open>.cjs\<close>, \<^verbatim>\<open>.mjs\<close>,
  \<^verbatim>\<open>.ts\<close> is a directory on disk, \<^verbatim>\<open>readFileSync\<close> throws \<^verbatim>\<open>EISDIR\<close>; the handler of the
  loop catches it, prints \<^verbatim>\<open>Validate Build File Error!\<close>, the path and the error, and
  exits with code 1, after no other call than that read. If the extension is \<^verbatim>\<open>.cjs\<close>,
  the path goes to \<^verbatim>\<open>require\<close> and is not read: where \<^verbatim>\<open>require\<close> does not throw, the
  directory is accepted and the loop goes on to the next declared file.
\<close>

theorem C10_declared_directory:
  "(extname filePath \<notin> {''.cjs'', ''.mjs'', ''.ts''}
      \<and> resolve (disk st) filePath = Inr (Dir es) \<longrightarrow>
    validateFiles pf cfg (filePath # rest) st
      = (Some (Exit1 [Str ''Validate Build File Error!'', Str filePath, Err EISDIR]),
         log (ReadFileSync filePath) st))
   \<and> (extname filePath = ''.cjs'' \<and> resolve (disk st) filePath = Inr (Dir es)
        \<and> fst (requireModule pf filePath (disk st)) = None \<longrightarrow>
      validateFiles pf cfg (filePath # rest) st
        = validateFiles pf cfg rest
            (log (Require filePath) (st\<lparr>disk := snd (requireModule pf filePath (disk st))\<rparr>)))"
proof (intro conjI impI)
  assume a: "extname filePath \<notin> {''.cjs'', ''.mjs'', ''.ts''}
      \<and> resolve (disk st) filePath = Inr (Dir es)"
  have r: "readAt (disk st) filePath = Inl EISDIR"
    using a by (simp add: readAt_directory)
  have ext: "extname filePath \<noteq> ''.cjs''" "extname filePath \<noteq> ''.mjs''" "extname filePath \<noteq> ''.ts''"
    using a by simp_all
  have "validateFile pf cfg filePath st = (Some EISDIR, log (ReadFileSync filePath) st)"
  proof (cases "extname filePath = ''.json'' \<or> extname filePath = ''.map''")
    case True
    then have "validateFile pf cfg filePath st = parseJsonFile pf filePath st"
      using validateFile_json validateFile_map by blast
    then show ?thesis by (simp add: parseJsonFile_def readFileSync_def r)
  next
    case False
    then show ?thesis using ext by (simp add: validateFile_read_default r)
  qed
  then have "validateFiles pf cfg (filePath # rest) st
      = (Some (Exit1 (fileError filePath EISDIR)), log (ReadFileSync filePath) st)"
    by (rule validateFiles_Cons_Some)
  then show "validateFiles pf cfg (filePath # rest) st
      = (Some (Exit1 [Str ''Validate Build File Error!'', Str filePath, Err EISDIR]),
         log (ReadFileSync filePath) st)"
    unfolding fileError_text .
next
  assume a: "extname filePath = ''.cjs'' \<and> resolve (disk st) filePath = Inr (Dir es)
        \<and> fst (requireModule pf filePath (disk st)) = None"
  have "fst (validateFile pf cfg filePath st) = None"
    using a by (simp add: validateFile_cjs require_thrown)
  moreover have "snd (validateFile pf cfg filePath st)
      = log (Require filePath) (st\<lparr>disk := snd (requireModule pf filePath (disk st))\<rparr>)"
    using a by (simp add: validateFile_cjs require_state)
  ultimately have "validateFile pf cfg filePath st
      = (None, log (Require filePath) (st\<lparr>disk := snd (requireModule pf filePath (disk st))\<rparr>))"
    by (simp add: prod_eq_iff)
  then show "validateFiles pf cfg (filePath # rest) st
        = validateFiles pf cfg rest
            (log (Require filePath) (st\<lparr>disk := snd (requireModule pf filePath (disk st))\<rparr>))"
    by (rule validateFiles_Cons_None)
qed

text \<open>
  C10 as amended, at a declared directory \<^verbatim>\<open>dist\<close>, and at a declared directory
  \<^verbatim>\<open>vendor.cjs\<close> that holds an \<^verbatim>\<open>index.js\<close>.
\<close>

theorem C10_witness:
  "validateFiles (platformWith demoManifest) demoConfig [''/pkg/dist'']
      (startOn [(''dist'', Dir [])])
     = (Some (Exit1 [Str ''Validate Build File Error!'', Str ''/pkg/dist'', Err EISDIR]),
        log (ReadFileSync ''/pkg/dist'') (startOn [(''dist'', Dir [])]))
   \<and> validateFiles (platformWith demoManifest) demoConfig [''/pkg/vendor.cjs'']
        (startOn [(''vendor.cjs'', Dir [(''index.js'', File (text_of ''module.exports = 2;''))])])
     = (None, log (Require ''/pkg/vendor.cjs'')
          (startOn [(''vendor.cjs'', Dir [(''index.js'', File (text_of ''module.exports = 2;''))])]))"
proof -
  have a: "extname ''/pkg/dist'' \<notin> {''.cjs'', ''.mjs'', ''.ts''}
      \<and> resolve (disk (startOn [(''dist'', Dir [])])) ''/pkg/dist'' = Inr (Dir [])"
    by code_simp
  have b: "extname ''/pkg/vendor.cjs'' = ''.cjs''
      \<and> resolve (disk (startOn [(''vendor.cjs'',
             Dir [(''index.js'', File (text_of ''module.exports = 2;''))])])) ''/pkg/vendor.cjs''
          = Inr (Dir [(''index.js'', File (text_of ''module.exports = 2;''))])
      \<and> fst (requireModule (platformWith demoManifest) ''/pkg/vendor.cjs''
               (disk (startOn [(''vendor.cjs'',
                  Dir [(''index.js'', File (text_of ''module.exports = 2;''))])]))) = None"
    by code_simp
  have w1: "validateFiles (platformWith demoManifest) demoConfig [''/pkg/dist'']
      (startOn [(''dist'', Dir [])])
     = (Some (Exit1 [Str ''Validate Build File Error!'', Str ''/pkg/dist'', Err EISDIR]),
        log (ReadFileSync ''/pkg/dist'') (startOn [(''dist'', Dir [])]))"
    by (rule conjunct1 [OF C10_declared_directory, THEN mp, OF a])
  have "validateFiles (platformWith demoManifest) demoConfig [''/pkg/vendor.cjs'']
        (startOn [(''vendor.cjs'', Dir [(''index.js'', File (text_of ''module.exports = 2;''))])])
     = validateFiles (platformWith demoManifest) demoConfig []
         (log (Require ''/pkg/vendor.cjs'')
            ((startOn [(''vendor.cjs'',
                 Dir [(''index.js'', File (text_of ''module.exports = 2;''))])])
             \<lparr>disk := snd (requireModule (platformWith demoManifest) ''/pkg/vendor.cjs''
                 (disk (startOn [(''vendor.cjs'',
                    Dir [(''index.js'', File (text_of ''module.exports = 2;''))])])))\<rparr>))"
    by (rule conjunct2 [OF C10_declared_directory, THEN mp, OF b])
  then have w2: "validateFiles (platformWith demoManifest) demoConfig [''/pkg/vendor.cjs'']
        (startOn [(''vendor.cjs'', Dir [(''index.js'', File (text_of ''module.exports = 2;''))])])
     = (None, log (Require ''/pkg/vendor.cjs'')
          (startOn [(''vendor.cjs'', Dir [(''index.js'', File (text_of ''module.exports = 2;''))])]))"
    by (simp add: validateFiles.simps platformWith_loaders)
  show ?thesis by (intro conjI w1 w2)
qed

text \<open>
  C10 as stated fails: a declared directory \<^verbatim>\<open>vendor.cjs\<close> that holds an \<^verbatim>\<open>index.js\<close>
  (declared as well) goes to \<^verbatim>\<open>require\<close>, which loads a folder through its \<^verbatim>\<open>index.js\<close>
  and does not throw, and the run validates.
\<close>

theorem C10_counterexample:
  "resolve (disk (startOn (demoEntries
       @ [(''vendor.cjs'', Dir [(''index.js'', File (text_of ''module.exports = 2;''))])])))
      ''/pkg/vendor.cjs'' = Inr (Dir [(''index.js'', File (text_of ''module.exports = 2;''))])
   \<and> fst (validateBuild
        (platformWith (demoManifest\<lparr>files := files demoManifest @ [''vendor.cjs'', ''vendor.cjs/index.js'']\<rparr>))
        demoConfig
        (startOn (demoEntries
           @ [(''vendor.cjs'', Dir [(''index.js'', File (text_of ''module.exports = 2;''))])])))
     = Validated"
  by code_simp

end
